theory Spec2Isabelle
  imports Main "HOL-Library.Word"
begin

section \<open>Go values shared by the whole package\<close>

text \<open>
  A Go call either panics (the process aborts with a run-time error), returns a non-nil
  \<open>error\<close> and nothing else of use, returns normally, or never returns because it
  waits for ever on a channel. The four are kept apart: \<open>Panics\<close> carries the panic
  message, \<open>Fails\<close> the error value, \<open>Returns\<close> the result, \<open>Blocks\<close> nothing.
\<close>

datatype error = Error string

datatype 'a outcome = Panics string | Fails error | Returns 'a | Blocks

text \<open>Sequencing: the second call runs only when the first returns.\<close>

fun outcome_bind :: "'a outcome \<Rightarrow> ('a \<Rightarrow> 'b outcome) \<Rightarrow> 'b outcome" where
  "outcome_bind (Returns x) f = f x"
| "outcome_bind (Panics s) f = Panics s"
| "outcome_bind (Fails e) f = Fails e"
| "outcome_bind Blocks f = Blocks"

type_synonym byte = "8 word"

section \<open>Introspection data (introspect.go)\<close>

text \<open>
  The catalogue types of introspect.go. Record fields are global names in HOL, so each
  Go field \<open>Name\<close> carries its struct as a prefix.
\<close>

record annotationData =
  annotationData_Name :: string
  annotationData_Value :: string

record argData =
  argData_Name :: string
  argData_Type :: string
  argData_Direction :: string

record methodData =
  methodData_Name :: string
  methodData_Arg :: "argData list"
  methodData_Annotation :: annotationData

record signalData =
  signalData_Name :: string
  signalData_Arg :: "argData list"

record xmlInterfaceData =
  xmlInterfaceData_Name :: string
  xmlInterfaceData_Method :: "methodData list"
  xmlInterfaceData_Signal :: "signalData list"

record interfaceData =
  interfaceData_Name :: string
  interfaceData_Methods :: "methodData list"
  interfaceData_Signals :: "signalData list"

text \<open>
  \<open>introspect\<close> is the struct behind the Go interface \<open>Introspect\<close>; the child nodes
  are never read by the package and are left out.
\<close>

record introspect =
  introspect_Name :: string
  introspect_Interfaces :: "xmlInterfaceData list"

text \<open>\<open>for _, v := range p.Methods { if v.GetName() == name { return v } }; return nil\<close>\<close>

definition GetMethodData :: "interfaceData \<Rightarrow> string \<Rightarrow> methodData option" where
  "GetMethodData p name = find (\<lambda>v. methodData_Name v = name) (interfaceData_Methods p)"

definition interfaceData_MethodByName :: "interfaceData \<Rightarrow> string \<Rightarrow> methodData option" where
  "interfaceData_MethodByName p name = GetMethodData p name"

definition GetSignalData :: "interfaceData \<Rightarrow> string \<Rightarrow> signalData option" where
  "GetSignalData p name = find (\<lambda>v. signalData_Name v = name) (interfaceData_Signals p)"

definition interfaceData_SignalByName :: "interfaceData \<Rightarrow> string \<Rightarrow> signalData option" where
  "interfaceData_SignalByName p name = GetSignalData p name"

definition GetInterfaceData :: "introspect \<Rightarrow> string \<Rightarrow> interfaceData option" where
  "GetInterfaceData p name =
     (case find (\<lambda>v. xmlInterfaceData_Name v = name) (introspect_Interfaces p) of
        None \<Rightarrow> None
      | Some v \<Rightarrow> Some \<lparr>interfaceData_Name = xmlInterfaceData_Name v,
                         interfaceData_Methods = xmlInterfaceData_Method v,
                         interfaceData_Signals = xmlInterfaceData_Signal v\<rparr>)"

text \<open>
  \<open>GetInSignature\<close> and \<open>GetOutSignature\<close> compare \<open>strings.ToUpper\<close> of the
  direction attribute. \<open>strings.ToUpper\<close> maps every Unicode rune of the text to its upper
  case; it belongs to Go's library and is the argument \<open>toUpper\<close> here (the field
  \<open>ToUpper\<close> of the collaborators below).
\<close>

definition GetInSignature :: "(string \<Rightarrow> string) \<Rightarrow> methodData \<Rightarrow> string" where
  "GetInSignature toUpper p =
     concat (map argData_Type (filter (\<lambda>v. toUpper (argData_Direction v) = ''IN'') (methodData_Arg p)))"

definition GetOutSignature :: "(string \<Rightarrow> string) \<Rightarrow> methodData \<Rightarrow> string" where
  "GetOutSignature toUpper p =
     concat (map argData_Type (filter (\<lambda>v. toUpper (argData_Direction v) = ''OUT'') (methodData_Arg p)))"

definition GetSignature :: "signalData \<Rightarrow> string" where
  "GetSignature p = concat (map argData_Type (signalData_Arg p))"

section \<open>Objects, interfaces, methods and signals (dbus.go, lines 114 to 197)\<close>

text \<open>
  \<open>Object.intro\<close> is a Go interface value and may be nil (\<open>None\<close>); so may
  \<open>_interface.intro\<close>. \<open>_interface.obj\<close> is a pointer that every constructor of the
  package sets to an allocated object.
\<close>

record Object =
  Object_dest :: string
  Object_path :: string
  Object_intro :: "introspect option"

record interface =
  interface_obj :: Object
  interface_name :: string
  interface_intro :: "interfaceData option"

record Method =
  method_iface :: interface
  method_MethodIntrospect :: methodData

record Signal =
  signal_iface :: interface
  signal_SignalIntrospect :: signalData

text \<open>
  \<open>MethodByName\<close> and \<open>SignalByName\<close> of \<open>_interface\<close> (lines 181 to 197). Calling a
  method of the nil interface value \<open>iface.intro\<close> is a run-time panic; a missing name
  is the explicit \<open>panic("invalid method")\<close>. The result \<open>&method{iface, data}\<close> is the
  address of a fresh struct, so a normal return is never nil.
\<close>

definition MethodByName :: "interface \<Rightarrow> string \<Rightarrow> Method outcome" where
  "MethodByName iface name =
     (case interface_intro iface of
        None \<Rightarrow> Panics ''runtime error: invalid memory address or nil pointer dereference''
      | Some intro \<Rightarrow>
          (case interfaceData_MethodByName intro name of
             None \<Rightarrow> Panics ''invalid method''
           | Some data \<Rightarrow> Returns \<lparr>method_iface = iface, method_MethodIntrospect = data\<rparr>))"

definition SignalByName :: "interface \<Rightarrow> string \<Rightarrow> Signal outcome" where
  "SignalByName iface name =
     (case interface_intro iface of
        None \<Rightarrow> Panics ''runtime error: invalid memory address or nil pointer dereference''
      | Some intro \<Rightarrow>
          (case interfaceData_SignalByName intro name of
             None \<Rightarrow> Panics ''invalid signal''
           | Some data \<Rightarrow> Returns \<lparr>signal_iface = iface, signal_SignalIntrospect = data\<rparr>))"

text \<open>The methods and signals an interface's introspection data holds (none when it is nil).\<close>

definition interface_methods :: "interface \<Rightarrow> methodData list" where
  "interface_methods iface =
     (case interface_intro iface of None \<Rightarrow> [] | Some intro \<Rightarrow> interfaceData_Methods intro)"

definition interface_signals :: "interface \<Rightarrow> signalData list" where
  "interface_signals iface =
     (case interface_intro iface of None \<Rightarrow> [] | Some intro \<Rightarrow> interfaceData_Signals intro)"

fun is_panic :: "'a outcome \<Rightarrow> bool" where
  "is_panic (Panics _) = True"
| "is_panic _ = False"


section \<open>Messages, match rules and the connection (dbus.go, lines 98 to 112)\<close>

text \<open>
  The dynamically typed argument values (\<open>[]interface{}\<close> in Go) as the closed sum of the
  D-Bus kinds that section 3 of the specification lists. Integers are words of their width
  (the signed ones are read with \<open>sint\<close>); a double is carried as its 64-bit pattern, no
  floating-point arithmetic is done on it. An array carries its element type, so that an
  empty array still has a signature.
\<close>

datatype dbus_type =
    TByte | TBool | TInt16 | TUint16 | TInt32 | TUint32 | TInt64 | TUint64 | TDouble
  | TString | TObjectPath | TSignature
  | TArray dbus_type | TStruct "dbus_type list" | TDictEntry dbus_type dbus_type | TVariant

datatype dbus_value =
    VByte "8 word" | VBool bool
  | VInt16 "16 word" | VUint16 "16 word" | VInt32 "32 word" | VUint32 "32 word"
  | VInt64 "64 word" | VUint64 "64 word" | VDouble "64 word"
  | VString string | VObjectPath string | VSignature string
  | VArray dbus_type "dbus_value list" | VStruct "dbus_value list"
  | VDictEntry dbus_value dbus_value | VVariant dbus_value

text \<open>
  Modelled from the spec: message.go is not among the sources, so the message type is the
  enumeration of section 3 (METHOD_CALL, METHOD_RETURN, ERROR, SIGNAL); \<open>MessageType\<close> is
  an integer type in Go, and \<open>OtherType n\<close> stands for every other type code. The
  fields of \<open>Message\<close> are the ones dbus.go reads and writes; \<open>serial\<close> is converted
  with \<open>uint32(msg.serial)\<close> there, so it is an integer, and \<open>replySerial\<close> is the key
  of a \<open>map[uint32]\<close>.
\<close>

datatype MessageType = METHOD_CALL | METHOD_RETURN | ERROR | SIGNAL | OtherType int

record Message =
  Type :: MessageType
  Path :: string
  Dest :: string
  Iface :: string
  Member :: string
  Sig :: string
  Params :: "dbus_value list"
  serial :: int
  replySerial :: "32 word"

text \<open>
  Modelled from the spec: matchrule.go is not among the sources. A match rule is a filter
  of optional predicates (unset is a wildcard); what \<open>_Match\<close> and \<open>_ToString\<close> compute
  is a parameter of the model (see \<open>collaborators\<close> below).
\<close>

record MatchRule =
  MatchRule_Sender :: "string option"
  MatchRule_Path :: "string option"
  MatchRule_Interface :: "string option"
  MatchRule_Member :: "string option"

text \<open>
  The Go function values of type \<open>func(*Message)\<close> that the package stores and calls:
  a function of the application (named by a number), and the three closures dbus.go
  creates. \<open>SendSync_closure callback\<close> is the closure of line 329, which runs
  \<open>callback(rmsg)\<close> and then sends on the call's channel; \<open>Call_closure\<close> is the one of
  line 434 (\<open>ret = reply.Params\<close>) and \<open>GetIntrospect_closure\<close> the one of line 352.
\<close>

datatype func =
    UserFunc nat
  | Call_closure
  | GetIntrospect_closure
  | SendSync_closure func

text \<open>
  What a dispatch does beyond changing the connection: it calls function values and
  prints a line. The events are listed in the order the code performs them.
\<close>

datatype event = Invoked func Message | Println string

record signalHandler =
  mr :: MatchRule
  "proc" :: func

text \<open>
  Go's \<open>net.Conn\<close>, the environment of the package: where it was dialed, the bytes
  written to it so far, and whether writes fail. \<open>Write\<close> returns the byte count and
  the error as Go does.
\<close>

record NetConn =
  NetConn_network :: string
  NetConn_address :: string
  NetConn_written :: "byte list"
  NetConn_broken :: bool

definition NetConn_Write :: "NetConn \<Rightarrow> byte list \<Rightarrow> NetConn \<times> int \<times> error option" where
  "NetConn_Write c b =
     (if NetConn_broken c then (c, 0, Some (Error ''write: broken pipe''))
      else (c\<lparr>NetConn_written := NetConn_written c @ b\<rparr>, int (length b), None))"

text \<open>
  The connection. A Go map, a \<open>*bytes.Buffer\<close> and an interface value are nil until
  \<open>Initialize\<close> sets them: \<open>None\<close> is nil. Reading a nil map finds nothing and
  deleting from it does nothing, storing into it panics.
\<close>

record Connection =
  addressMap :: "string \<rightharpoonup> string"
  uniqName :: string
  methodCallReplies :: "(32 word \<rightharpoonup> func) option"
  signalMatchRules :: "signalHandler list"
  conn :: NetConn
  buffer :: "byte list option"
  proxy :: "interface option"

definition map_lookup :: "('k \<rightharpoonup> 'v) option \<Rightarrow> 'k \<Rightarrow> 'v option" where
  "map_lookup m k = (case m of None \<Rightarrow> None | Some t \<Rightarrow> t k)"

definition map_delete :: "('k \<rightharpoonup> 'v) option \<Rightarrow> 'k \<Rightarrow> ('k \<rightharpoonup> 'v) option" where
  "map_delete m k = (case m of None \<Rightarrow> None | Some t \<Rightarrow> Some (t(k := None)))"

text \<open>
  The functions of the package that dbus.go calls and that are not among the sources
  (marshall.go, matchrule.go, auth.go), and the XML decoding and the upper-casing of
  Go's library, as parameters: the theorems below hold for every choice of them.
  \<^item> \<open>Marshal\<close> is \<open>msg._Marshal()\<close>, returning the bytes and an error;
  \<^item> \<open>Unmarshal\<close> is \<open>_Unmarshal(bytes)\<close>, returning the message (a pointer, nil is
    \<open>None\<close>), the consumed byte count (a Go \<open>int\<close>) and an error;
  \<^item> \<open>Match\<close> is \<open>rule._Match(msg)\<close> and \<open>ToString\<close> is \<open>rule._ToString()\<close>;
  \<^item> \<open>Authenticate\<close> is \<open>auth.Authenticate(p.conn)\<close>, which talks over the socket;
  \<^item> \<open>NewIntrospect\<close> decodes an introspection document, \<open>None\<close> when it fails;
  \<^item> \<open>ToUpper\<close> is \<open>strings.ToUpper\<close>.
\<close>

record collaborators =
  Marshal :: "Message \<Rightarrow> byte list \<times> error option"
  Unmarshal :: "byte list \<Rightarrow> Message option \<times> int \<times> error option"
  Match :: "MatchRule \<Rightarrow> Message \<Rightarrow> bool"
  ToString :: "MatchRule \<Rightarrow> string"
  Authenticate :: "NetConn \<Rightarrow> NetConn \<times> error option"
  NewIntrospect :: "string \<Rightarrow> introspect option"
  ToUpper :: "string \<Rightarrow> string"

section \<open>Connecting to a bus (dbus.go, lines 12 to 17 and 199 to 241)\<close>

type_synonym StandardBus = int

definition SessionBus :: StandardBus where
  "SessionBus = 0"

definition SystemBus :: StandardBus where
  "SystemBus = 1"

text \<open>
  \<open>strings.Index(s, sep)\<close> and \<open>strings.Split(s, sep)\<close> for a separator of one
  character, which is how \<open>Connect\<close> calls them: the index of the first occurrence or
  -1, and the pieces between the occurrences (one piece more than there are separators).
\<close>

fun Index :: "string \<Rightarrow> char \<Rightarrow> int" where
  "Index [] sep = -1"
| "Index (c # cs) sep =
     (if c = sep then 0 else (let i = Index cs sep in if i < 0 then -1 else i + 1))"

fun Split :: "string \<Rightarrow> char \<Rightarrow> string list" where
  "Split [] sep = [[]]"
| "Split (c # cs) sep =
     (if c = sep then [] # Split cs sep
      else (case Split cs sep of [] \<Rightarrow> [[c]] | w # ws \<Rightarrow> (c # w) # ws))"

text \<open>
  The loop of lines 222 to 225: each pair is split at \<open>=\<close> and stored under its key; a
  pair without \<open>=\<close> has no \<open>pair[1]\<close> and the index panics.
\<close>

fun Connect_pairs :: "(string \<rightharpoonup> string) \<Rightarrow> string list \<Rightarrow> (string \<rightharpoonup> string) outcome" where
  "Connect_pairs m [] = Returns m"
| "Connect_pairs m (pair # pairs) =
     (case Split pair CHR ''='' of
        k # v # _ \<Rightarrow> Connect_pairs (m(k \<mapsto> v)) pairs
      | _ \<Rightarrow> Panics ''runtime error: index out of range [1] with length 1'')"

text \<open>The switch of lines 202 to 213; \<open>os.Getenv\<close> gives the empty string for an unset variable.\<close>

definition Connect_address :: "(string \<Rightarrow> string) \<Rightarrow> StandardBus \<Rightarrow> string outcome" where
  "Connect_address getenv busType =
     (if busType = SessionBus then Returns (getenv ''DBUS_SESSION_BUS_ADDRESS'')
      else if busType = SystemBus then
        (let address = getenv ''DBUS_SYSTEM_BUS_ADDRESS'' in
         if length address = 0 then Returns ''unix:path=/var/run/dbus/system_bus_socket''
         else Returns address)
      else Fails (Error ''Unknown bus''))"

text \<open>
  Lines 218 to 225: the transport is the text before the first colon (the slice
  \<open>address[:-1]\<close> panics when there is none), the rest is the list of pairs.
\<close>

definition Connect_parse :: "string \<Rightarrow> (string \<times> (string \<rightharpoonup> string)) outcome" where
  "Connect_parse address =
     (let i = Index address CHR '':'' in
      if i < 0 then Panics ''runtime error: slice bounds out of range [:-1]''
      else
        (let transport = take (nat i) address in
         outcome_bind
           (Connect_pairs Map.empty (Split (drop (length transport + 1) address) CHR '',''))
           (\<lambda>m. Returns (transport, m))))"

text \<open>
  Lines 227 to 240. \<open>new(Connection)\<close> has the zero value in every field that
  \<open>Connect\<close> does not set. \<open>dial\<close> is \<open>net.Dial\<close>.
\<close>

definition Connect_dial ::
  "(string \<Rightarrow> string \<Rightarrow> error + NetConn) \<Rightarrow> string \<Rightarrow> string \<Rightarrow> (string \<rightharpoonup> string)
     \<Rightarrow> Connection outcome" where
  "Connect_dial dial transport address m =
     (case dial transport address of
        Inl err \<Rightarrow> Fails err
      | Inr c \<Rightarrow> Returns \<lparr>addressMap = m, uniqName = [], methodCallReplies = None,
                          signalMatchRules = [], conn = c, buffer = None, proxy = None\<rparr>)"

definition Connect ::
  "(string \<Rightarrow> string) \<Rightarrow> (string \<Rightarrow> string \<Rightarrow> error + NetConn) \<Rightarrow> StandardBus
     \<Rightarrow> Connection outcome" where
  "Connect getenv dial busType =
     outcome_bind (Connect_address getenv busType) (\<lambda>address.
       if length address = 0 then Fails (Error ''Unknown bus address'')
       else
         outcome_bind (Connect_parse address) (\<lambda>(transport, m).
           case m ''path'' of
             Some a \<Rightarrow> Connect_dial dial transport a m
           | None \<Rightarrow>
               (case m ''abstract'' of
                  Some a \<Rightarrow> Connect_dial dial transport (''@'' @ a) m
                | None \<Rightarrow> Fails (Error ''Unknown address key''))))"

text \<open>
  The text of a bus address, for stating what \<open>Connect\<close> does with one: a transport,
  a colon, and pairs \<open>key=value\<close> separated by commas. A pair is plain when neither its
  key nor its value holds a comma or an equals sign.
\<close>

fun pair_text :: "string \<times> string \<Rightarrow> string" where
  "pair_text (k, v) = k @ ''='' @ v"

fun pairs_text :: "(string \<times> string) list \<Rightarrow> string" where
  "pairs_text [] = []"
| "pairs_text [kv] = pair_text kv"
| "pairs_text (kv # kv' # kvs) = pair_text kv @ '','' @ pairs_text (kv' # kvs)"

fun plain_pair :: "string \<times> string \<Rightarrow> bool" where
  "plain_pair (k, v) \<longleftrightarrow>
     CHR '','' \<notin> set k \<and> CHR ''='' \<notin> set k \<and> CHR '','' \<notin> set v \<and> CHR ''='' \<notin> set v"

definition address_text :: "string \<Rightarrow> (string \<times> string) list \<Rightarrow> string" where
  "address_text transport kvs = transport @ '':'' @ pairs_text kvs"

section \<open>Receiving and dispatching (dbus.go, lines 264 to 324)\<close>

text \<open>
  The loop of lines 299 to 303 over the registered handlers, in the order of the slice.
\<close>

fun dispatch_signal :: "collaborators \<Rightarrow> Message \<Rightarrow> signalHandler list \<Rightarrow> event list" where
  "dispatch_signal E msg [] = []"
| "dispatch_signal E msg (handler # handlers) =
     (if Match E (mr handler) msg
      then Invoked (proc handler) msg # dispatch_signal E msg handlers
      else dispatch_signal E msg handlers)"

text \<open>
  The call \<open>replyFunc(msg)\<close> of line 295, by the function value called. The closure of
  \<open>_SendSync\<close> runs its callback and then sends on the channel of the waiting call; the
  closure of \<open>Call\<close> copies \<open>reply.Params\<close>; the closure of \<open>_GetIntrospect\<close> reads
  \<open>reply.Params[0]\<close> (line 353), which panics when the reply has no argument. A
  function of the application is not part of the package and is taken to return.
\<close>

fun call_func :: "func \<Rightarrow> Message \<Rightarrow> unit outcome" where
  "call_func (UserFunc n) msg = Returns ()"
| "call_func Call_closure msg = Returns ()"
| "call_func GetIntrospect_closure msg =
     (if Params msg = [] then Panics ''runtime error: index out of range [0] with length 0''
      else Returns ())"
| "call_func (SendSync_closure callback) msg = call_func callback msg"

text \<open>
  \<open>_MessageDispatch\<close> (lines 286 to 307). The message is a pointer and may be nil. The
  result is the connection afterwards and what the dispatch did, in order. For a
  METHOD_RETURN the stored function is called first (line 295) and the entry is deleted
  when the call has returned (line 296); a panic of the call ends the program before the
  delete. The handlers of a SIGNAL are functions of the application.
\<close>

definition MessageDispatch ::
  "collaborators \<Rightarrow> Connection \<Rightarrow> Message option \<Rightarrow> (Connection \<times> event list) outcome" where
  "MessageDispatch E p m =
     (case m of
        None \<Rightarrow> Returns (p, [])
      | Some msg \<Rightarrow>
          (case Type msg of
             METHOD_RETURN \<Rightarrow>
               (let rs = replySerial msg in
                case map_lookup (methodCallReplies p) rs of
                  Some replyFunc \<Rightarrow>
                    outcome_bind (call_func replyFunc msg) (\<lambda>u.
                      Returns (p\<lparr>methodCallReplies := map_delete (methodCallReplies p) rs\<rparr>,
                               [Invoked replyFunc msg]))
                | None \<Rightarrow> Returns (p, []))
           | SIGNAL \<Rightarrow> Returns (p, dispatch_signal E msg (signalMatchRules p))
           | ERROR \<Rightarrow> Returns (p, [Println ''ERROR''])
           | METHOD_CALL \<Rightarrow> Returns (p, [])
           | OtherType n \<Rightarrow> Returns (p, [])))"

text \<open>
  \<open>_PopMessage\<close> (lines 309 to 316). \<open>p.buffer.Bytes()\<close> on a nil buffer and
  \<open>make([]byte, n)\<close> with a negative \<open>n\<close> panic; \<open>p.buffer.Read\<close> removes as many
  bytes from the front as the slice holds, or all there are.
\<close>

definition PopMessage ::
  "collaborators \<Rightarrow> Connection \<Rightarrow> (Connection \<times> Message option \<times> error option) outcome" where
  "PopMessage E p =
     (case buffer p of
        None \<Rightarrow> Panics ''runtime error: invalid memory address or nil pointer dereference''
      | Some b \<Rightarrow>
          (case Unmarshal E b of
             (msg, n, Some err) \<Rightarrow> Returns (p, None, Some err)
           | (msg, n, None) \<Rightarrow>
               if n < 0 then Panics ''runtime error: makeslice: len out of range''
               else Returns (p\<lparr>buffer := Some (drop (nat n) b)\<rparr>, msg, None)))"

text \<open>
  \<open>_UpdateBuffer\<close> (lines 318 to 324). What \<open>p.conn.Read(buff)\<close> delivers comes from
  the peer and is an argument here: the bytes read, at most the 4096 the slice holds, and
  the error.
\<close>

definition UpdateBuffer ::
  "Connection \<Rightarrow> byte list \<times> error option \<Rightarrow> (Connection \<times> error option) outcome" where
  "UpdateBuffer p rd =
     (case buffer p of
        None \<Rightarrow> Panics ''runtime error: invalid memory address or nil pointer dereference''
      | Some b \<Rightarrow> Returns (p\<lparr>buffer := Some (b @ take 4096 (fst rd))\<rparr>, snd rd))"

text \<open>
  One turn of the loop of \<open>_MessageReceiver\<close> (lines 265 to 272): a decoded message goes
  to the channel, after any error the buffer is refilled from the socket. \<open>rd\<close> is what
  the socket would deliver; the third component tells whether it was read.
\<close>

definition MessageReceiver_turn ::
  "collaborators \<Rightarrow> Connection \<Rightarrow> byte list \<times> error option
     \<Rightarrow> (Connection \<times> Message option list \<times> bool) outcome" where
  "MessageReceiver_turn E p rd =
     outcome_bind (PopMessage E p) (\<lambda>(p1, msg, e).
       case e of
         None \<Rightarrow> Returns (p1, [msg], False)
       | Some err \<Rightarrow> outcome_bind (UpdateBuffer p1 rd) (\<lambda>(p2, e2). Returns (p2, [], True)))"

text \<open>
  The loop itself never returns. \<open>MessageReceiver\<close> runs a given number of turns of it
  against the reads that the socket delivers, and gives the connection, the messages sent
  to the channel and the reads still to come; when the reads are used up the socket read
  blocks.
\<close>

fun MessageReceiver ::
  "collaborators \<Rightarrow> nat \<Rightarrow> Connection \<Rightarrow> (byte list \<times> error option) list
     \<Rightarrow> (Connection \<times> Message option list \<times> (byte list \<times> error option) list) outcome" where
  "MessageReceiver E 0 p reads = Returns (p, [], reads)"
| "MessageReceiver E (Suc k) p reads =
     outcome_bind (PopMessage E p) (\<lambda>(p1, msg, e).
       case e of
         None \<Rightarrow>
           outcome_bind (MessageReceiver E k p1 reads) (\<lambda>(p2, msgs, rest).
             Returns (p2, msg # msgs, rest))
       | Some err \<Rightarrow>
           (case reads of
              [] \<Rightarrow> Returns (p1, [], [])
            | rd # reads' \<Rightarrow>
                outcome_bind (UpdateBuffer p1 rd) (\<lambda>(p2, e2). MessageReceiver E k p2 reads')))"

text \<open>
  \<open>_RunLoop\<close> (lines 275 to 284) dispatches the messages of the channel one after the
  other; a dispatch that panics ends the loop and the program.
\<close>

fun RunLoop ::
  "collaborators \<Rightarrow> Connection \<Rightarrow> Message option list \<Rightarrow> (Connection \<times> event list) outcome" where
  "RunLoop E p [] = Returns (p, [])"
| "RunLoop E p (m # ms) =
     outcome_bind (MessageDispatch E p m) (\<lambda>(p1, evs).
       outcome_bind (RunLoop E p1 ms) (\<lambda>(p2, evs'). Returns (p2, evs @ evs')))"

section \<open>Calls, signals and handlers (dbus.go, lines 243 to 262 and 326 to 476)\<close>

text \<open>
  \<open><-recvChan\<close> in \<open>_SendSync\<close>. The caller is blocked while the receive loop, which
  runs beside it, dispatches the messages that arrive; \<open>msgs\<close> are the messages that the
  receiver has decoded and sent to the channel, in their order (the receiver's own work on
  \<open>p.buffer\<close> is \<open>MessageReceiver\<close> above and is not repeated here). The caller goes
  on when the dispatcher has called the closure stored under \<open>seri\<close>: \<open>wakes\<close> tells
  whether a message does that, namely a METHOD_RETURN with that reply serial while the
  entry is present, when its dispatch returns. With no such message the caller stays
  blocked. The result gives the
  message the closure was called with and the messages not yet dispatched.
\<close>

definition wakes :: "Connection \<Rightarrow> 32 word \<Rightarrow> Message option \<Rightarrow> Message option" where
  "wakes p seri m =
     (case m of
        None \<Rightarrow> None
      | Some msg \<Rightarrow>
          if Type msg = METHOD_RETURN \<and> replySerial msg = seri
             \<and> map_lookup (methodCallReplies p) seri \<noteq> None
          then Some msg else None)"

fun recvChan ::
  "collaborators \<Rightarrow> 32 word \<Rightarrow> Connection \<Rightarrow> Message option list
     \<Rightarrow> (Connection \<times> event list \<times> Message \<times> Message option list) outcome" where
  "recvChan E seri p [] = Blocks"
| "recvChan E seri p (m # ms) =
     outcome_bind (MessageDispatch E p m) (\<lambda>(p1, evs).
       case wakes p seri m of
         Some rmsg \<Rightarrow> Returns (p1, evs, rmsg, ms)
       | None \<Rightarrow>
           outcome_bind (recvChan E seri p1 ms) (\<lambda>(p2, evs', rmsg, rest).
             Returns (p2, evs @ evs', rmsg, rest)))"

text \<open>
  \<open>_SendSync\<close> (lines 326 to 338): the closure is stored under the serial, the message
  is marshalled and written, and both the marshalling error and the result of the write
  are dropped; then the caller waits. The result carries the message the closure was
  called with, for the caller's own callback.
\<close>

definition SendSync ::
  "collaborators \<Rightarrow> Connection \<Rightarrow> Message \<Rightarrow> func \<Rightarrow> Message option list
     \<Rightarrow> (Connection \<times> event list \<times> Message \<times> Message option list) outcome" where
  "SendSync E p msg callback msgs =
     (let seri = (word_of_int (serial msg) :: 32 word) in
      case methodCallReplies p of
        None \<Rightarrow> Panics ''assignment to entry in nil map''
      | Some replies \<Rightarrow>
          (let p1 = p\<lparr>methodCallReplies := Some (replies(seri \<mapsto> SendSync_closure callback))\<rparr>;
               buff = fst (Marshal E msg);
               p2 = p1\<lparr>conn := fst (NetConn_Write (conn p1) buff)\<rparr>
           in recvChan E seri p2 msgs))"

text \<open>
  \<open>Call\<close> (lines 418 to 439). \<open>msg0\<close> is the message that \<open>NewMessage()\<close> returns (its
  code is in message.go). The result is the connection, the events of the dispatches that
  ran meanwhile, the two values Go returns (\<open>ret\<close> and the error, \<open>None\<close> for nil),
  and the messages not yet dispatched.
\<close>

definition Call_message ::
  "collaborators \<Rightarrow> Message \<Rightarrow> Method \<Rightarrow> dbus_value list \<Rightarrow> Message" where
  "Call_message E msg0 meth args =
     (let iface = method_iface meth;
          data = method_MethodIntrospect meth;
          obj = interface_obj iface;
          msg = msg0\<lparr>Type := METHOD_CALL, Path := Object_path obj, Iface := interface_name iface,
                     Dest := Object_dest obj, Member := methodData_Name data,
                     Sig := GetInSignature (ToUpper E) data\<rparr>
      in if length args > 0 then msg\<lparr>Params := args\<rparr> else msg)"

definition Call ::
  "collaborators \<Rightarrow> Connection \<Rightarrow> Message \<Rightarrow> Method \<Rightarrow> dbus_value list \<Rightarrow> Message option list
     \<Rightarrow> (Connection \<times> event list \<times> dbus_value list \<times> error option \<times> Message option list) outcome" where
  "Call E p msg0 meth args msgs =
     outcome_bind (SendSync E p (Call_message E msg0 meth args) Call_closure msgs)
       (\<lambda>(p1, evs, reply, rest). Returns (p1, evs, Params reply, None, rest))"

text \<open>\<open>Emit\<close> (lines 442 to 459): the marshalling error is dropped, the write's is returned.\<close>

definition Emit_message :: "Message \<Rightarrow> Signal \<Rightarrow> dbus_value list \<Rightarrow> Message" where
  "Emit_message msg0 sig args =
     (let iface = signal_iface sig;
          data = signal_SignalIntrospect sig;
          obj = interface_obj iface
      in msg0\<lparr>Type := SIGNAL, Path := Object_path obj, Iface := interface_name iface,
               Dest := Object_dest obj, Member := signalData_Name data,
               Sig := GetSignature data, Params := args\<rparr>)"

definition Emit ::
  "collaborators \<Rightarrow> Connection \<Rightarrow> Message \<Rightarrow> Signal \<Rightarrow> dbus_value list
     \<Rightarrow> (Connection \<times> error option) outcome" where
  "Emit E p msg0 sig args =
     (let buff = fst (Marshal E (Emit_message msg0 sig args))
      in case NetConn_Write (conn p) buff of
           (c, n, err) \<Rightarrow> Returns (p\<lparr>conn := c\<rparr>, err))"

text \<open>
  The document \<open>dbusXMLIntro\<close> (lines 19 to 96) as \<open>NewIntrospect\<close> decodes it: the
  interfaces of the node with their methods and signals in the order of the text, each
  argument with its \<open>name\<close>, \<open>type\<close> and \<open>direction\<close> attributes (empty when absent).
\<close>

definition xml_arg :: "string \<Rightarrow> string \<Rightarrow> string \<Rightarrow> argData" where
  "xml_arg name direction type =
     \<lparr>argData_Name = name, argData_Type = type, argData_Direction = direction\<rparr>"

definition xml_method :: "string \<Rightarrow> argData list \<Rightarrow> methodData" where
  "xml_method name args =
     \<lparr>methodData_Name = name, methodData_Arg = args,
      methodData_Annotation = \<lparr>annotationData_Name = [], annotationData_Value = []\<rparr>\<rparr>"

definition xml_signal :: "string \<Rightarrow> argData list \<Rightarrow> signalData" where
  "xml_signal name args = \<lparr>signalData_Name = name, signalData_Arg = args\<rparr>"

definition dbusXMLIntro :: introspect where
  "dbusXMLIntro =
     \<lparr>introspect_Name = [],
      introspect_Interfaces =
       [\<lparr>xmlInterfaceData_Name = ''org.freedesktop.DBus.Introspectable'',
         xmlInterfaceData_Method = [xml_method ''Introspect'' [xml_arg ''data'' ''out'' ''s'']],
         xmlInterfaceData_Signal = []\<rparr>,
        \<lparr>xmlInterfaceData_Name = ''org.freedesktop.DBus'',
         xmlInterfaceData_Method =
          [xml_method ''RequestName''
             [xml_arg [] ''in'' ''s'', xml_arg [] ''in'' ''u'', xml_arg [] ''out'' ''u''],
           xml_method ''ReleaseName'' [xml_arg [] ''in'' ''s'', xml_arg [] ''out'' ''u''],
           xml_method ''StartServiceByName''
             [xml_arg [] ''in'' ''s'', xml_arg [] ''in'' ''u'', xml_arg [] ''out'' ''u''],
           xml_method ''Hello'' [xml_arg [] ''out'' ''s''],
           xml_method ''NameHasOwner'' [xml_arg [] ''in'' ''s'', xml_arg [] ''out'' ''b''],
           xml_method ''ListNames'' [xml_arg [] ''out'' ''as''],
           xml_method ''ListActivatableNames'' [xml_arg [] ''out'' ''as''],
           xml_method ''AddMatch'' [xml_arg [] ''in'' ''s''],
           xml_method ''RemoveMatch'' [xml_arg [] ''in'' ''s''],
           xml_method ''GetNameOwner'' [xml_arg [] ''in'' ''s'', xml_arg [] ''out'' ''s''],
           xml_method ''ListQueuedOwners'' [xml_arg [] ''in'' ''s'', xml_arg [] ''out'' ''as''],
           xml_method ''GetConnectionUnixUser'' [xml_arg [] ''in'' ''s'', xml_arg [] ''out'' ''u''],
           xml_method ''GetConnectionUnixProcessID''
             [xml_arg [] ''in'' ''s'', xml_arg [] ''out'' ''u''],
           xml_method ''GetConnectionSELinuxSecurityContext''
             [xml_arg [] ''in'' ''s'', xml_arg [] ''out'' ''ay''],
           xml_method ''ReloadConfig'' []],
         xmlInterfaceData_Signal =
          [xml_signal ''NameOwnerChanged''
             [xml_arg [] [] ''s'', xml_arg [] [] ''s'', xml_arg [] [] ''s''],
           xml_signal ''NameLost'' [xml_arg [] [] ''s''],
           xml_signal ''NameAcquired'' [xml_arg [] [] ''s'']]\<rparr>]\<rparr>"

text \<open>\<open>_GetProxy\<close> (lines 403 to 415).\<close>

definition GetProxy :: interface where
  "GetProxy =
     (let obj = \<lparr>Object_dest = ''org.freedesktop.DBus'', Object_path = ''/org/freedesktop/DBus'',
                 Object_intro = Some dbusXMLIntro\<rparr>
      in \<lparr>interface_obj = obj, interface_name = ''org.freedesktop.DBus'',
          interface_intro = GetInterfaceData dbusXMLIntro ''org.freedesktop.DBus''\<rparr>)"

text \<open>
  \<open>_SendHello\<close> (line 340): both results of \<open>Call\<close> are dropped. Calling a method of
  the nil interface value \<open>p.proxy\<close> panics.
\<close>

definition SendHello ::
  "collaborators \<Rightarrow> Connection \<Rightarrow> Message \<Rightarrow> Message option list
     \<Rightarrow> (Connection \<times> event list \<times> Message option list) outcome" where
  "SendHello E p msg0 msgs =
     (case proxy p of
        None \<Rightarrow> Panics ''runtime error: invalid memory address or nil pointer dereference''
      | Some pr \<Rightarrow>
          outcome_bind (MethodByName pr ''Hello'') (\<lambda>meth.
            outcome_bind (Call E p msg0 meth [] msgs) (\<lambda>(p1, evs, ret, err, rest).
              Returns (p1, evs, rest))))"

text \<open>\<open>_Auth\<close> (lines 257 to 262).\<close>

definition Auth :: "collaborators \<Rightarrow> Connection \<Rightarrow> Connection \<times> error option" where
  "Auth E p = (case Authenticate E (conn p) of (c, err) \<Rightarrow> (p\<lparr>conn := c\<rparr>, err))"

text \<open>
  \<open>Initialize\<close> (lines 243 to 255). \<open>go p._RunLoop()\<close> starts the receive loop, whose
  dispatches while \<open>_SendHello\<close> waits are \<open>msgs\<close>. The third component of the result
  is the error \<open>Initialize\<close> returns.
\<close>

definition Initialize ::
  "collaborators \<Rightarrow> Connection \<Rightarrow> Message \<Rightarrow> Message option list
     \<Rightarrow> (Connection \<times> event list \<times> error option \<times> Message option list) outcome" where
  "Initialize E p msg0 msgs =
     (let p1 = p\<lparr>methodCallReplies := Some Map.empty, signalMatchRules := [],
                 proxy := Some GetProxy, buffer := Some []\<rparr>
      in case Auth E p1 of
           (p2, Some err) \<Rightarrow> Returns (p2, [], Some err, msgs)
         | (p2, None) \<Rightarrow>
             outcome_bind (SendHello E p2 msg0 msgs) (\<lambda>(p3, evs, rest).
               Returns (p3, evs, None, rest)))"

text \<open>
  \<open>_GetIntrospect\<close> (lines 342 to 361) and \<open>Object\<close> (lines 462 to 470). The closure
  runs in the dispatcher (\<open>call_func\<close> above, where \<open>reply.Params[0]\<close> panics on a
  reply without arguments); \<open>GetIntrospect_reply\<close> is what it leaves in \<open>intro\<close>: the
  catalogue when the first argument is a string that decodes, and nil otherwise.
\<close>

definition GetIntrospect_message :: "Message \<Rightarrow> string \<Rightarrow> string \<Rightarrow> Message" where
  "GetIntrospect_message msg0 dest path =
     msg0\<lparr>Type := METHOD_CALL, Path := path, Dest := dest,
          Iface := ''org.freedesktop.DBus.Introspectable'', Member := ''Introspect''\<rparr>"

definition GetIntrospect_reply :: "collaborators \<Rightarrow> Message \<Rightarrow> introspect option" where
  "GetIntrospect_reply E reply =
     (case Params reply of
        VString s # _ \<Rightarrow> NewIntrospect E s
      | _ \<Rightarrow> None)"

definition GetIntrospect ::
  "collaborators \<Rightarrow> Connection \<Rightarrow> Message \<Rightarrow> string \<Rightarrow> string \<Rightarrow> Message option list
     \<Rightarrow> (Connection \<times> event list \<times> introspect option \<times> Message option list) outcome" where
  "GetIntrospect E p msg0 dest path msgs =
     outcome_bind
       (SendSync E p (GetIntrospect_message msg0 dest path) GetIntrospect_closure msgs)
       (\<lambda>(p1, evs, reply, rest). Returns (p1, evs, GetIntrospect_reply E reply, rest))"

definition Connection_Object ::
  "collaborators \<Rightarrow> Connection \<Rightarrow> Message \<Rightarrow> string \<Rightarrow> string \<Rightarrow> Message option list
     \<Rightarrow> (Connection \<times> event list \<times> Object \<times> Message option list) outcome" where
  "Connection_Object E p msg0 dest path msgs =
     outcome_bind (GetIntrospect E p msg0 dest path msgs) (\<lambda>(p1, evs, intro, rest).
       Returns (p1, evs, \<lparr>Object_dest = dest, Object_path = path, Object_intro = intro\<rparr>, rest))"

text \<open>
  \<open>Handle\<close> (lines 473 to 476): line 474 is \<open>Handle_register\<close>, line 475 the call of
  \<open>AddMatch\<close> with the rule's text as its only argument.
\<close>

definition Handle_register :: "Connection \<Rightarrow> MatchRule \<Rightarrow> func \<Rightarrow> Connection" where
  "Handle_register p rule handler =
     p\<lparr>signalMatchRules := signalMatchRules p @ [\<lparr>mr = rule, proc = handler\<rparr>]\<rparr>"

definition Handle_AddMatch ::
  "collaborators \<Rightarrow> Connection \<Rightarrow> Message \<Rightarrow> MatchRule \<Rightarrow> Message option list
     \<Rightarrow> (Connection \<times> event list \<times> Message option list) outcome" where
  "Handle_AddMatch E p msg0 rule msgs =
     (case proxy p of
        None \<Rightarrow> Panics ''runtime error: invalid memory address or nil pointer dereference''
      | Some pr \<Rightarrow>
          outcome_bind (MethodByName pr ''AddMatch'') (\<lambda>meth.
            outcome_bind (Call E p msg0 meth [VString (ToString E rule)] msgs)
              (\<lambda>(p1, evs, ret, err, rest). Returns (p1, evs, rest))))"

definition Handle ::
  "collaborators \<Rightarrow> Connection \<Rightarrow> Message \<Rightarrow> MatchRule \<Rightarrow> func \<Rightarrow> Message option list
     \<Rightarrow> (Connection \<times> event list \<times> Message option list) outcome" where
  "Handle E p msg0 rule handler msgs =
     Handle_AddMatch E (Handle_register p rule handler) msg0 rule msgs"

section \<open>The statements of Handle in their order\<close>











section \<open>Sequences of operations\<close>

text \<open>
  The operations of a connection with their arguments, to speak of everything that may
  happen to a connection after \<open>Initialize\<close>: the exported methods, the dispatch of
  incoming messages and the receiver's work on the buffer. \<open>perform\<close> keeps the
  connection of an operation that returns.
\<close>

datatype operation =
    Do_Initialize Message "Message option list"
  | Do_Call Message Method "dbus_value list" "Message option list"
  | Do_Emit Message Signal "dbus_value list"
  | Do_Object Message string string "Message option list"
  | Do_Handle Message MatchRule func "Message option list"
  | Do_RunLoop "Message option list"
  | Do_MessageReceiver nat "(byte list \<times> error option) list"

fun perform :: "collaborators \<Rightarrow> Connection \<Rightarrow> operation \<Rightarrow> Connection outcome" where
  "perform E p (Do_Initialize msg0 msgs) =
     outcome_bind (Initialize E p msg0 msgs) (\<lambda>r. Returns (fst r))"
| "perform E p (Do_Call msg0 meth args msgs) =
     outcome_bind (Call E p msg0 meth args msgs) (\<lambda>r. Returns (fst r))"
| "perform E p (Do_Emit msg0 sig args) =
     outcome_bind (Emit E p msg0 sig args) (\<lambda>r. Returns (fst r))"
| "perform E p (Do_Object msg0 dest path msgs) =
     outcome_bind (Connection_Object E p msg0 dest path msgs) (\<lambda>r. Returns (fst r))"
| "perform E p (Do_Handle msg0 rule handler msgs) =
     outcome_bind (Handle E p msg0 rule handler msgs) (\<lambda>r. Returns (fst r))"
| "perform E p (Do_RunLoop msgs) =
     outcome_bind (RunLoop E p msgs) (\<lambda>r. Returns (fst r))"
| "perform E p (Do_MessageReceiver k reads) =
     outcome_bind (MessageReceiver E k p reads) (\<lambda>r. Returns (fst r))"

fun perform_all :: "collaborators \<Rightarrow> Connection \<Rightarrow> operation list \<Rightarrow> Connection outcome" where
  "perform_all E p [] = Returns p"
| "perform_all E p (operation # operations) =
     outcome_bind (perform E p operation) (\<lambda>p1. perform_all E p1 operations)"

section \<open>The codec of the wire format (specification, section 4.1)\<close>

text \<open>
  Modelled from the spec: marshall.go, the file of \<open>_Marshal\<close> and \<open>_Unmarshal\<close>, is
  not among the sources, so the encoding and decoding of values follow the encoding and
  decoding contracts of section 4.1 of the specification, with the type codes of the
  D-Bus specification that it refers to. Offsets count from the start of the message
  body.
\<close>

datatype byte_order = LittleEndian | BigEndian

text \<open>
  Modelled from the spec: the alignment of each type. Scalars are aligned to their size
  (a boolean is a 4-byte unsigned integer), strings and arrays to their 4-byte length,
  signatures and variants to 1, structs and dict-entries to 8.
\<close>

fun alignment :: "dbus_type \<Rightarrow> nat" where
  "alignment TByte = 1"
| "alignment TBool = 4"
| "alignment TInt16 = 2"
| "alignment TUint16 = 2"
| "alignment TInt32 = 4"
| "alignment TUint32 = 4"
| "alignment TInt64 = 8"
| "alignment TUint64 = 8"
| "alignment TDouble = 8"
| "alignment TString = 4"
| "alignment TObjectPath = 4"
| "alignment TSignature = 1"
| "alignment (TArray t) = 4"
| "alignment (TStruct ts) = 8"
| "alignment (TDictEntry k v) = 8"
| "alignment TVariant = 1"

text \<open>
  Modelled from the spec: the signature of a type, the compact string of type codes, and
  the type of a value.
\<close>

primrec signature_of :: "dbus_type \<Rightarrow> string" where
  "signature_of TByte = ''y''"
| "signature_of TBool = ''b''"
| "signature_of TInt16 = ''n''"
| "signature_of TUint16 = ''q''"
| "signature_of TInt32 = ''i''"
| "signature_of TUint32 = ''u''"
| "signature_of TInt64 = ''x''"
| "signature_of TUint64 = ''t''"
| "signature_of TDouble = ''d''"
| "signature_of TString = ''s''"
| "signature_of TObjectPath = ''o''"
| "signature_of TSignature = ''g''"
| "signature_of (TArray t) = ''a'' @ signature_of t"
| "signature_of (TStruct ts) = ''('' @ concat (map signature_of ts) @ '')''"
| "signature_of (TDictEntry k v) = ''{'' @ signature_of k @ signature_of v @ ''}''"
| "signature_of TVariant = ''v''"

primrec type_of :: "dbus_value \<Rightarrow> dbus_type" where
  "type_of (VByte x) = TByte"
| "type_of (VBool x) = TBool"
| "type_of (VInt16 x) = TInt16"
| "type_of (VUint16 x) = TUint16"
| "type_of (VInt32 x) = TInt32"
| "type_of (VUint32 x) = TUint32"
| "type_of (VInt64 x) = TInt64"
| "type_of (VUint64 x) = TUint64"
| "type_of (VDouble x) = TDouble"
| "type_of (VString s) = TString"
| "type_of (VObjectPath s) = TObjectPath"
| "type_of (VSignature s) = TSignature"
| "type_of (VArray t vs) = TArray t"
| "type_of (VStruct vs) = TStruct (map type_of vs)"
| "type_of (VDictEntry k v) = TDictEntry (type_of k) (type_of v)"
| "type_of (VVariant v) = TVariant"

text \<open>
  Modelled from the spec: a struct of zero members is invalid per the grammar of type
  signatures.
\<close>

primrec valid_type :: "dbus_type \<Rightarrow> bool" where
  "valid_type TByte = True"
| "valid_type TBool = True"
| "valid_type TInt16 = True"
| "valid_type TUint16 = True"
| "valid_type TInt32 = True"
| "valid_type TUint32 = True"
| "valid_type TInt64 = True"
| "valid_type TUint64 = True"
| "valid_type TDouble = True"
| "valid_type TString = True"
| "valid_type TObjectPath = True"
| "valid_type TSignature = True"
| "valid_type (TArray t) = valid_type t"
| "valid_type (TStruct ts) = (ts \<noteq> [] \<and> list_all valid_type ts)"
| "valid_type (TDictEntry k v) = (valid_type k \<and> valid_type v)"
| "valid_type TVariant = True"

text \<open>
  Modelled from the spec: parsing one type from the front of a signature. Unknown codes
  and unterminated containers are rejected, and so is a struct of zero members. The first
  argument bounds the nesting; the length of the signature is always enough.
\<close>

primrec parse_members ::
  "nat \<Rightarrow> (string \<Rightarrow> (dbus_type \<times> string) option) \<Rightarrow> string
     \<Rightarrow> (dbus_type list \<times> string) option" where
  "parse_members 0 one s = None"
| "parse_members (Suc k) one s =
     (case s of
        [] \<Rightarrow> None
      | c # r \<Rightarrow>
          if c = CHR '')'' then Some ([], r)
          else
            (case one s of
               None \<Rightarrow> None
             | Some (t, r1) \<Rightarrow>
                 (case parse_members k one r1 of
                    None \<Rightarrow> None
                  | Some (ts, r2) \<Rightarrow> Some (t # ts, r2))))"

primrec parse_type :: "nat \<Rightarrow> string \<Rightarrow> (dbus_type \<times> string) option" where
  "parse_type 0 s = None"
| "parse_type (Suc n) s =
     (case s of
        [] \<Rightarrow> None
      | c # r \<Rightarrow>
          if c = CHR ''y'' then Some (TByte, r)
          else if c = CHR ''b'' then Some (TBool, r)
          else if c = CHR ''n'' then Some (TInt16, r)
          else if c = CHR ''q'' then Some (TUint16, r)
          else if c = CHR ''i'' then Some (TInt32, r)
          else if c = CHR ''u'' then Some (TUint32, r)
          else if c = CHR ''x'' then Some (TInt64, r)
          else if c = CHR ''t'' then Some (TUint64, r)
          else if c = CHR ''d'' then Some (TDouble, r)
          else if c = CHR ''s'' then Some (TString, r)
          else if c = CHR ''o'' then Some (TObjectPath, r)
          else if c = CHR ''g'' then Some (TSignature, r)
          else if c = CHR ''v'' then Some (TVariant, r)
          else if c = CHR ''a'' then
            (case parse_type n r of None \<Rightarrow> None | Some (t, r1) \<Rightarrow> Some (TArray t, r1))
          else if c = CHR ''('' then
            (case parse_members (Suc n) (parse_type n) r of
               None \<Rightarrow> None
             | Some (ts, r1) \<Rightarrow> if ts = [] then None else Some (TStruct ts, r1))
          else if c = CHR ''{'' then
            (case parse_type n r of
               None \<Rightarrow> None
             | Some (k, r1) \<Rightarrow>
                 (case parse_type n r1 of
                    None \<Rightarrow> None
                  | Some (v, r2) \<Rightarrow>
                      (case r2 of
                         [] \<Rightarrow> None
                       | c2 # r3 \<Rightarrow> if c2 = CHR ''}'' then Some (TDictEntry k v, r3) else None)))
          else None)"

text \<open>
  Modelled from the spec: unsigned integers of a given number of bytes in either byte
  order, the zero bytes that pad an offset up to an alignment, and text as bytes.
\<close>

primrec le_bytes :: "nat \<Rightarrow> nat \<Rightarrow> byte list" where
  "le_bytes 0 n = []"
| "le_bytes (Suc k) n = of_nat (n mod 256) # le_bytes k (n div 256)"

primrec le_nat :: "byte list \<Rightarrow> nat" where
  "le_nat [] = 0"
| "le_nat (b # bs) = unat b + 256 * le_nat bs"

definition put_uint :: "byte_order \<Rightarrow> nat \<Rightarrow> nat \<Rightarrow> byte list" where
  "put_uint e k n = (case e of LittleEndian \<Rightarrow> le_bytes k n | BigEndian \<Rightarrow> rev (le_bytes k n))"

definition get_uint :: "byte_order \<Rightarrow> byte list \<Rightarrow> nat" where
  "get_uint e bs = (case e of LittleEndian \<Rightarrow> le_nat bs | BigEndian \<Rightarrow> le_nat (rev bs))"

definition padding :: "nat \<Rightarrow> nat \<Rightarrow> byte list" where
  "padding a off = replicate ((a - off mod a) mod a) 0"

definition byte_of_char :: "char \<Rightarrow> byte" where
  "byte_of_char c = of_nat (of_char c)"

definition char_of_byte :: "byte \<Rightarrow> char" where
  "char_of_byte b = char_of (unat b)"

text \<open>
  Modelled from the spec: the encoder. A value is written at an offset: padding up to its
  alignment, then its bytes. \<open>None\<close> is the failure at encode time (an array whose
  element type is invalid or is not the type of every element, a struct of no members, a
  length that its length field cannot hold).
\<close>

definition put_fixed :: "byte_order \<Rightarrow> nat \<Rightarrow> nat \<Rightarrow> nat \<Rightarrow> byte list" where
  "put_fixed e k n off = padding k off @ put_uint e k n"

definition put_string :: "byte_order \<Rightarrow> string \<Rightarrow> nat \<Rightarrow> byte list option" where
  "put_string e s off =
     (if length s < 2 ^ 32
      then Some (put_fixed e 4 (length s) off @ map byte_of_char s @ [0])
      else None)"

definition put_signature :: "string \<Rightarrow> byte list option" where
  "put_signature s =
     (if length s < 256 then Some (of_nat (length s) # map byte_of_char s @ [0]) else None)"

primrec encode_all :: "(nat \<Rightarrow> byte list option) list \<Rightarrow> nat \<Rightarrow> byte list option" where
  "encode_all [] off = Some []"
| "encode_all (w # ws) off =
     (case w off of
        None \<Rightarrow> None
      | Some b \<Rightarrow>
          (case encode_all ws (off + length b) of
             None \<Rightarrow> None
           | Some bs \<Rightarrow> Some (b @ bs)))"

primrec encode_value :: "byte_order \<Rightarrow> dbus_value \<Rightarrow> nat \<Rightarrow> byte list option" where
  "encode_value e (VByte x) = (\<lambda>off. Some [x])"
| "encode_value e (VBool x) = (\<lambda>off. Some (put_fixed e 4 (if x then 1 else 0) off))"
| "encode_value e (VInt16 x) = (\<lambda>off. Some (put_fixed e 2 (unat x) off))"
| "encode_value e (VUint16 x) = (\<lambda>off. Some (put_fixed e 2 (unat x) off))"
| "encode_value e (VInt32 x) = (\<lambda>off. Some (put_fixed e 4 (unat x) off))"
| "encode_value e (VUint32 x) = (\<lambda>off. Some (put_fixed e 4 (unat x) off))"
| "encode_value e (VInt64 x) = (\<lambda>off. Some (put_fixed e 8 (unat x) off))"
| "encode_value e (VUint64 x) = (\<lambda>off. Some (put_fixed e 8 (unat x) off))"
| "encode_value e (VDouble x) = (\<lambda>off. Some (put_fixed e 8 (unat x) off))"
| "encode_value e (VString s) = put_string e s"
| "encode_value e (VObjectPath s) = put_string e s"
| "encode_value e (VSignature s) = (\<lambda>off. put_signature s)"
| "encode_value e (VArray t vs) = (\<lambda>off.
     if valid_type t \<and> list_all (\<lambda>v. type_of v = t) vs then
       (if vs = [] then Some (put_fixed e 4 0 off)
        else
          (let first = off + length (padding 4 off) + 4;
               pad = padding (alignment t) first
           in case encode_all (map (encode_value e) vs) (first + length pad) of
                None \<Rightarrow> None
              | Some body \<Rightarrow>
                  if length body < 2 ^ 32
                  then Some (put_fixed e 4 (length body) off @ pad @ body)
                  else None))
     else None)"
| "encode_value e (VStruct vs) = (\<lambda>off.
     if vs = [] then None
     else
       (let pad = padding 8 off
        in case encode_all (map (encode_value e) vs) (off + length pad) of
             None \<Rightarrow> None
           | Some bs \<Rightarrow> Some (pad @ bs)))"
| "encode_value e (VDictEntry k v) = (\<lambda>off.
     (let pad = padding 8 off
      in case encode_all [encode_value e k, encode_value e v] (off + length pad) of
           None \<Rightarrow> None
         | Some bs \<Rightarrow> Some (pad @ bs)))"
| "encode_value e (VVariant v) = (\<lambda>off.
     (case put_signature (signature_of (type_of v)) of
        None \<Rightarrow> None
      | Some s \<Rightarrow>
          (case encode_value e v (off + length s) of
             None \<Rightarrow> None
           | Some bs \<Rightarrow> Some (s @ bs))))"

text \<open>
  Modelled from the spec: the decoder reads from a position, which is the offset from the
  start of the body and the bytes that remain there. Running out of bytes, a boolean other
  than 0 and 1, a missing NUL and a signature that does not parse make it fail.
\<close>

type_synonym reader = "nat \<times> byte list"

definition take_bytes :: "nat \<Rightarrow> reader \<Rightarrow> (byte list \<times> reader) option" where
  "take_bytes n st =
     (if length (snd st) < n then None
      else Some (take n (snd st), (fst st + n, drop n (snd st))))"

definition skip_padding :: "nat \<Rightarrow> reader \<Rightarrow> reader option" where
  "skip_padding a st = map_option snd (take_bytes (length (padding a (fst st))) st)"

definition read_uint :: "byte_order \<Rightarrow> nat \<Rightarrow> reader \<Rightarrow> (nat \<times> reader) option" where
  "read_uint e k st =
     (case skip_padding k st of
        None \<Rightarrow> None
      | Some st1 \<Rightarrow>
          (case take_bytes k st1 of
             None \<Rightarrow> None
           | Some (bs, st2) \<Rightarrow> Some (get_uint e bs, st2)))"

definition read_text :: "nat \<Rightarrow> reader \<Rightarrow> (string \<times> reader) option" where
  "read_text n st =
     (case take_bytes n st of
        None \<Rightarrow> None
      | Some (bs, st1) \<Rightarrow>
          (case take_bytes 1 st1 of
             None \<Rightarrow> None
           | Some (z, st2) \<Rightarrow> if z = [0] then Some (map char_of_byte bs, st2) else None))"

definition read_string :: "byte_order \<Rightarrow> reader \<Rightarrow> (string \<times> reader) option" where
  "read_string e st =
     (case read_uint e 4 st of None \<Rightarrow> None | Some (n, st1) \<Rightarrow> read_text n st1)"

definition read_signature :: "reader \<Rightarrow> (string \<times> reader) option" where
  "read_signature st =
     (case take_bytes 1 st of
        None \<Rightarrow> None
      | Some (l, st1) \<Rightarrow> read_text (le_nat l) st1)"

primrec decode_all ::
  "(reader \<Rightarrow> (dbus_value \<times> reader) option) list \<Rightarrow> reader
     \<Rightarrow> (dbus_value list \<times> reader) option" where
  "decode_all [] st = Some ([], st)"
| "decode_all (r # rs) st =
     (case r st of
        None \<Rightarrow> None
      | Some (v, st1) \<Rightarrow>
          (case decode_all rs st1 of
             None \<Rightarrow> None
           | Some (vs, st2) \<Rightarrow> Some (v # vs, st2)))"

text \<open>
  The elements of an array are read until the bytes of the array are used up; an array of
  \<open>k\<close> bytes has at most \<open>k\<close> elements.
\<close>

primrec decode_elements ::
  "nat \<Rightarrow> (reader \<Rightarrow> (dbus_value \<times> reader) option) \<Rightarrow> reader \<Rightarrow> dbus_value list option" where
  "decode_elements 0 one st = (if snd st = [] then Some [] else None)"
| "decode_elements (Suc k) one st =
     (if snd st = [] then Some []
      else
        (case one st of
           None \<Rightarrow> None
         | Some (v, st1) \<Rightarrow>
             (case decode_elements k one st1 of
                None \<Rightarrow> None
              | Some vs \<Rightarrow> Some (v # vs))))"

text \<open>
  The first argument of \<open>decode_value\<close> bounds the nesting of containers, which for a
  variant is known only from the bytes; \<open>decode_body\<close> below passes a bound that is
  always enough.
\<close>

primrec decode_value ::
  "nat \<Rightarrow> byte_order \<Rightarrow> dbus_type \<Rightarrow> reader \<Rightarrow> (dbus_value \<times> reader) option" where
  "decode_value 0 e t st = None"
| "decode_value (Suc d) e t st =
     (case t of
        TByte \<Rightarrow> map_option (apfst (\<lambda>n. VByte (of_nat n))) (read_uint e 1 st)
      | TBool \<Rightarrow>
          (case read_uint e 4 st of
             None \<Rightarrow> None
           | Some (n, st1) \<Rightarrow>
               if n = 0 then Some (VBool False, st1)
               else if n = 1 then Some (VBool True, st1)
               else None)
      | TInt16 \<Rightarrow> map_option (apfst (\<lambda>n. VInt16 (of_nat n))) (read_uint e 2 st)
      | TUint16 \<Rightarrow> map_option (apfst (\<lambda>n. VUint16 (of_nat n))) (read_uint e 2 st)
      | TInt32 \<Rightarrow> map_option (apfst (\<lambda>n. VInt32 (of_nat n))) (read_uint e 4 st)
      | TUint32 \<Rightarrow> map_option (apfst (\<lambda>n. VUint32 (of_nat n))) (read_uint e 4 st)
      | TInt64 \<Rightarrow> map_option (apfst (\<lambda>n. VInt64 (of_nat n))) (read_uint e 8 st)
      | TUint64 \<Rightarrow> map_option (apfst (\<lambda>n. VUint64 (of_nat n))) (read_uint e 8 st)
      | TDouble \<Rightarrow> map_option (apfst (\<lambda>n. VDouble (of_nat n))) (read_uint e 8 st)
      | TString \<Rightarrow> map_option (apfst VString) (read_string e st)
      | TObjectPath \<Rightarrow> map_option (apfst VObjectPath) (read_string e st)
      | TSignature \<Rightarrow> map_option (apfst VSignature) (read_signature st)
      | TArray t1 \<Rightarrow>
          (case read_uint e 4 st of
             None \<Rightarrow> None
           | Some (n, st1) \<Rightarrow>
               if n = 0 then Some (VArray t1 [], st1)
               else
                 (case skip_padding (alignment t1) st1 of
                    None \<Rightarrow> None
                  | Some st2 \<Rightarrow>
                      (case take_bytes n st2 of
                         None \<Rightarrow> None
                       | Some (body, st3) \<Rightarrow>
                           (case decode_elements n (decode_value d e t1) (fst st2, body) of
                              None \<Rightarrow> None
                            | Some vs \<Rightarrow> Some (VArray t1 vs, st3)))))
      | TStruct ts \<Rightarrow>
          if ts = [] then None
          else
            (case skip_padding 8 st of
               None \<Rightarrow> None
             | Some st1 \<Rightarrow>
                 map_option (apfst VStruct) (decode_all (map (decode_value d e) ts) st1))
      | TDictEntry tk tv \<Rightarrow>
          (case skip_padding 8 st of
             None \<Rightarrow> None
           | Some st1 \<Rightarrow>
               (case decode_value d e tk st1 of
                  None \<Rightarrow> None
                | Some (k, st2) \<Rightarrow>
                    (case decode_value d e tv st2 of
                       None \<Rightarrow> None
                     | Some (v, st3) \<Rightarrow> Some (VDictEntry k v, st3))))
      | TVariant \<Rightarrow>
          (case read_signature st of
             None \<Rightarrow> None
           | Some (s, st1) \<Rightarrow>
               (case parse_type (length s) s of
                  None \<Rightarrow> None
                | Some (t1, r) \<Rightarrow>
                    if r = [] then map_option (apfst VVariant) (decode_value d e t1 st1)
                    else None)))"

text \<open>
  Modelled from the spec: a message body is the values of its signature one after the
  other from offset 0, and it is padded to end on an 8-byte boundary relative to its start
  (decoding contract, third item). Decoding gives the values and the count of bytes
  consumed. \<open>value_depth\<close> is the nesting of a value and \<open>type_nodes\<close> the size of a
  type; the bound on the nesting that \<open>decode_body\<close> passes is made of the latter and the
  number of bytes.
\<close>

primrec value_depth :: "dbus_value \<Rightarrow> nat" where
  "value_depth (VByte x) = 1"
| "value_depth (VBool x) = 1"
| "value_depth (VInt16 x) = 1"
| "value_depth (VUint16 x) = 1"
| "value_depth (VInt32 x) = 1"
| "value_depth (VUint32 x) = 1"
| "value_depth (VInt64 x) = 1"
| "value_depth (VUint64 x) = 1"
| "value_depth (VDouble x) = 1"
| "value_depth (VString s) = 1"
| "value_depth (VObjectPath s) = 1"
| "value_depth (VSignature s) = 1"
| "value_depth (VArray t vs) = Suc (foldr max (map value_depth vs) 0)"
| "value_depth (VStruct vs) = Suc (foldr max (map value_depth vs) 0)"
| "value_depth (VDictEntry k v) = Suc (max (value_depth k) (value_depth v))"
| "value_depth (VVariant v) = Suc (value_depth v)"

primrec type_nodes :: "dbus_type \<Rightarrow> nat" where
  "type_nodes TByte = 1"
| "type_nodes TBool = 1"
| "type_nodes TInt16 = 1"
| "type_nodes TUint16 = 1"
| "type_nodes TInt32 = 1"
| "type_nodes TUint32 = 1"
| "type_nodes TInt64 = 1"
| "type_nodes TUint64 = 1"
| "type_nodes TDouble = 1"
| "type_nodes TString = 1"
| "type_nodes TObjectPath = 1"
| "type_nodes TSignature = 1"
| "type_nodes (TArray t) = Suc (type_nodes t)"
| "type_nodes (TStruct ts) = Suc (sum_list (map type_nodes ts))"
| "type_nodes (TDictEntry k v) = Suc (type_nodes k + type_nodes v)"
| "type_nodes TVariant = 1"

definition encode_body :: "byte_order \<Rightarrow> dbus_value list \<Rightarrow> byte list option" where
  "encode_body e vs =
     (case encode_all (map (encode_value e) vs) 0 of
        None \<Rightarrow> None
      | Some b \<Rightarrow> Some (b @ padding 8 (length b)))"

definition decode_body ::
  "byte_order \<Rightarrow> dbus_type list \<Rightarrow> byte list \<Rightarrow> (dbus_value list \<times> nat) option" where
  "decode_body e ts bytes =
     (let d = length bytes + sum_list (map type_nodes ts)
      in case decode_all (map (decode_value d e) ts) (0, bytes) of
           None \<Rightarrow> None
         | Some (vs, st) \<Rightarrow>
             (case skip_padding 8 st of
                None \<Rightarrow> None
              | Some st1 \<Rightarrow> Some (vs, fst st1)))"

section \<open>Concrete inputs\<close>

text \<open>
  The outcome of a call that returned, for reading a component of a concrete run.
\<close>

fun returned :: "'a outcome \<Rightarrow> 'a option" where
  "returned (Returns x) = Some x"
| "returned (Panics s) = None"
| "returned (Fails e) = None"
| "returned Blocks = None"

text \<open>
  One choice of the collaborators to run the definitions on: a matcher that compares the
  predicates a rule sets with the message's fields, a marshaller that fails, a decoder
  that reads a one-byte frame (its byte is the serial of a METHOD_RETURN reply) and
  reports an empty buffer as incomplete, and an authentication that succeeds.
\<close>

definition example_Match :: "MatchRule \<Rightarrow> Message \<Rightarrow> bool" where
  "example_Match rule msg \<longleftrightarrow>
     (case MatchRule_Path rule of None \<Rightarrow> True | Some x \<Rightarrow> x = Path msg) \<and>
     (case MatchRule_Interface rule of None \<Rightarrow> True | Some x \<Rightarrow> x = Iface msg) \<and>
     (case MatchRule_Member rule of None \<Rightarrow> True | Some x \<Rightarrow> x = Member msg)"

definition example_message :: Message where
  "example_message =
     \<lparr>Type = OtherType 0, Path = [], Dest = [], Iface = [], Member = [], Sig = [],
      Params = [], serial = 1, replySerial = 0\<rparr>"

definition example_Unmarshal :: "byte list \<Rightarrow> Message option \<times> int \<times> error option" where
  "example_Unmarshal b =
     (case b of
        [] \<Rightarrow> (None, 0, Some (Error ''incomplete''))
      | x # _ \<Rightarrow> (Some (example_message\<lparr>Type := METHOD_RETURN, replySerial := ucast x\<rparr>), 1, None))"

text \<open>Upper-casing of the ASCII letters, which is what \<open>strings.ToUpper\<close> does on them.\<close>

definition example_ToUpper :: "string \<Rightarrow> string" where
  "example_ToUpper s =
     map (\<lambda>c. let n = (of_char c :: nat) in if 97 \<le> n \<and> n \<le> 122 then char_of (n - 32) else c) s"

definition example_collaborators :: collaborators where
  "example_collaborators =
     \<lparr>Marshal = (\<lambda>msg. ([], Some (Error ''marshal''))),
      Unmarshal = example_Unmarshal,
      Match = example_Match,
      ToString = (\<lambda>rule. ''type=signal''),
      Authenticate = (\<lambda>c. (c, None)),
      NewIntrospect = (\<lambda>s. None),
      ToUpper = example_ToUpper\<rparr>"

definition example_getenv :: "string \<Rightarrow> string" where
  "example_getenv name = []"

definition example_dial :: "string \<Rightarrow> string \<Rightarrow> error + NetConn" where
  "example_dial network address =
     Inr \<lparr>NetConn_network = network, NetConn_address = address, NetConn_written = [],
          NetConn_broken = True\<rparr>"

definition example_conn :: NetConn where
  "example_conn =
     \<lparr>NetConn_network = ''unix'', NetConn_address = ''/var/run/dbus/system_bus_socket'',
      NetConn_written = [], NetConn_broken = True\<rparr>"

text \<open>The connection that \<open>Connect\<close> gives for the system bus with no variable set.\<close>

definition example_connected :: Connection where
  "example_connected =
     \<lparr>addressMap = [''path'' \<mapsto> ''/var/run/dbus/system_bus_socket''], uniqName = [],
      methodCallReplies = None, signalMatchRules = [], conn = example_conn, buffer = None,
      proxy = None\<rparr>"

text \<open>An initialized connection with two calls pending and two handlers registered.\<close>

definition rule_any :: MatchRule where
  "rule_any = \<lparr>MatchRule_Sender = None, MatchRule_Path = None, MatchRule_Interface = None,
               MatchRule_Member = None\<rparr>"

definition example_pending :: Connection where
  "example_pending =
     example_connected
       \<lparr>methodCallReplies :=
          Some [7 \<mapsto> SendSync_closure Call_closure, 8 \<mapsto> SendSync_closure GetIntrospect_closure],
        signalMatchRules :=
          [\<lparr>mr = rule_any\<lparr>MatchRule_Interface := Some ''org.example.A''\<rparr>, proc = UserFunc 1\<rparr>,
           \<lparr>mr = rule_any\<lparr>MatchRule_Interface := Some ''org.example.B''\<rparr>, proc = UserFunc 2\<rparr>,
           \<lparr>mr = rule_any, proc = UserFunc 3\<rparr>],
        buffer := Some [7, 8],
        proxy := Some GetProxy\<rparr>"

text \<open>The reply to \<open>Hello\<close>: a METHOD_RETURN for serial 1 whose argument is the bus name.\<close>

definition hello_reply :: Message where
  "hello_reply = example_message\<lparr>Type := METHOD_RETURN, replySerial := 1,
                                 Sig := ''s'', Params := [VString '':1.42'']\<rparr>"

text \<open>
  Incoming messages: a reply and an error for the pending serial 7, a reply for a serial
  nobody waits for, and signals of the interfaces \<open>org.example.A\<close> and \<open>org.example.C\<close>.
\<close>

definition example_reply :: Message where
  "example_reply = example_message\<lparr>Type := METHOD_RETURN, replySerial := 7\<rparr>"

definition example_error :: Message where
  "example_error = example_message\<lparr>Type := ERROR, replySerial := 7\<rparr>"

definition example_stale_reply :: Message where
  "example_stale_reply = example_message\<lparr>Type := METHOD_RETURN, replySerial := 9\<rparr>"

text \<open>
  Replies to the call with serial 1: a METHOD_RETURN without arguments, and the error a
  bus returns for a call it refuses.
\<close>

definition empty_reply :: Message where
  "empty_reply = example_message\<lparr>Type := METHOD_RETURN, replySerial := 1\<rparr>"

definition error_reply :: Message where
  "error_reply = example_message\<lparr>Type := ERROR, replySerial := 1, Sig := ''s'',
                                 Params := [VString ''org.freedesktop.DBus.Error.MatchRuleInvalid'']\<rparr>"

text \<open>A METHOD_RETURN without arguments for the pending serial 8.\<close>

definition example_empty_reply :: Message where
  "example_empty_reply = example_message\<lparr>Type := METHOD_RETURN, replySerial := 8\<rparr>"

definition example_signal :: Message where
  "example_signal = example_message\<lparr>Type := SIGNAL, Iface := ''org.example.A''\<rparr>"

definition example_signal_C :: Message where
  "example_signal_C = example_message\<lparr>Type := SIGNAL, Iface := ''org.example.C''\<rparr>"

text \<open>An environment that names a session bus in the abstract namespace, and one over TCP.\<close>

definition example_getenv_abstract :: "string \<Rightarrow> string" where
  "example_getenv_abstract name =
     (if name = ''DBUS_SESSION_BUS_ADDRESS'' then ''unix:abstract=/tmp/dbus-1,guid=0'' else [])"

definition example_getenv_tcp :: "string \<Rightarrow> string" where
  "example_getenv_tcp name =
     (if name = ''DBUS_SESSION_BUS_ADDRESS'' then ''tcp:host=localhost,port=4000'' else [])"

definition example_getenv_path :: "string \<Rightarrow> string" where
  "example_getenv_path name =
     (if name = ''DBUS_SESSION_BUS_ADDRESS'' then ''unix:path=/tmp/bus,guid=0'' else [])"

text \<open>The session bus address that asks for a bus to be started, as the D-Bus daemon sets it.\<close>

definition example_getenv_autolaunch :: "string \<Rightarrow> string" where
  "example_getenv_autolaunch name =
     (if name = ''DBUS_SESSION_BUS_ADDRESS'' then ''autolaunch:'' else [])"

text \<open>The handle of \<open>Hello\<close> on the bus proxy, and a rule for one interface.\<close>

definition example_method :: Method where
  "example_method =
     \<lparr>method_iface = GetProxy,
      method_MethodIntrospect = xml_method ''Hello'' [xml_arg [] ''out'' ''s'']\<rparr>"

definition example_rule :: MatchRule where
  "example_rule = rule_any\<lparr>MatchRule_Interface := Some ''org.example.A''\<rparr>"

definition example_AddMatch :: Method where
  "example_AddMatch =
     \<lparr>method_iface = GetProxy,
      method_MethodIntrospect = xml_method ''AddMatch'' [xml_arg [] ''in'' ''s'']\<rparr>"

text \<open>
  The connection after \<open>Initialize\<close> on \<open>example_connected\<close>, and what an application
  might do next: register a handler (the reply to \<open>AddMatch\<close> arrives), then a signal
  is dispatched.
\<close>

definition example_initialized :: Connection where
  "example_initialized =
     example_connected\<lparr>methodCallReplies := Some Map.empty, signalMatchRules := [],
                        proxy := Some GetProxy, buffer := Some []\<rparr>"

definition example_operations :: "operation list" where
  "example_operations =
     [Do_Handle example_message example_rule (UserFunc 9) [Some hello_reply],
      Do_RunLoop [Some example_signal]]"


section \<open>Lookups by name\<close>

lemma outcome_bind_Returns:
  "outcome_bind x f = Returns y \<longleftrightarrow> (\<exists>v. x = Returns v \<and> f v = Returns y)"
  by (cases x) simp_all


lemma find_None_names: "find (\<lambda>v. f v = name) xs = None \<longleftrightarrow> name \<notin> f ` set xs"
  by (induction xs) auto

lemma find_Some_names:
  "find (\<lambda>v. f v = name) xs = Some d \<Longrightarrow> d \<in> set xs \<and> f d = name"
  by (induction xs) (auto split: if_splits)

lemma MethodByName_find:
  "MethodByName iface name =
     (case find (\<lambda>v. methodData_Name v = name) (interface_methods iface) of
        None \<Rightarrow> Panics (if interface_intro iface = None
                         then ''runtime error: invalid memory address or nil pointer dereference''
                         else ''invalid method'')
      | Some data \<Rightarrow> Returns \<lparr>method_iface = iface, method_MethodIntrospect = data\<rparr>)"
  by (simp add: MethodByName_def interface_methods_def interfaceData_MethodByName_def
      GetMethodData_def split: option.splits)

lemma SignalByName_find:
  "SignalByName iface name =
     (case find (\<lambda>v. signalData_Name v = name) (interface_signals iface) of
        None \<Rightarrow> Panics (if interface_intro iface = None
                         then ''runtime error: invalid memory address or nil pointer dereference''
                         else ''invalid signal'')
      | Some data \<Rightarrow> Returns \<lparr>signal_iface = iface, signal_SignalIntrospect = data\<rparr>)"
  by (simp add: SignalByName_def interface_signals_def interfaceData_SignalByName_def
      GetSignalData_def split: option.splits)

lemma MethodByName_panics:
  "is_panic (MethodByName iface name) \<longleftrightarrow>
     name \<notin> methodData_Name ` set (interface_methods iface)"
  by (simp add: MethodByName_find find_None_names [symmetric] split: option.splits)

lemma SignalByName_panics:
  "is_panic (SignalByName iface name) \<longleftrightarrow>
     name \<notin> signalData_Name ` set (interface_signals iface)"
  by (simp add: SignalByName_find find_None_names [symmetric] split: option.splits)

lemma MethodByName_returns:
  assumes "name \<in> methodData_Name ` set (interface_methods iface)"
  shows "\<exists>data. MethodByName iface name = Returns \<lparr>method_iface = iface, method_MethodIntrospect = data\<rparr>
           \<and> data \<in> set (interface_methods iface) \<and> methodData_Name data = name"
proof -
  from assms have "find (\<lambda>v. methodData_Name v = name) (interface_methods iface) \<noteq> None"
    by (simp add: find_None_names)
  then obtain data where d: "find (\<lambda>v. methodData_Name v = name) (interface_methods iface) = Some data"
    by blast
  from find_Some_names [OF d] d show ?thesis
    by (simp add: MethodByName_find)
qed

lemma SignalByName_returns:
  assumes "name \<in> signalData_Name ` set (interface_signals iface)"
  shows "\<exists>data. SignalByName iface name = Returns \<lparr>signal_iface = iface, signal_SignalIntrospect = data\<rparr>
           \<and> data \<in> set (interface_signals iface) \<and> signalData_Name data = name"
proof -
  from assms have "find (\<lambda>v. signalData_Name v = name) (interface_signals iface) \<noteq> None"
    by (simp add: find_None_names)
  then obtain data where d: "find (\<lambda>v. signalData_Name v = name) (interface_signals iface) = Some data"
    by blast
  from find_Some_names [OF d] d show ?thesis
    by (simp add: SignalByName_find)
qed

text \<open>
  Claim C10. For every interface and every name, \<open>MethodByName\<close> panics exactly when
  the introspection data of the interface holds no method of that name, and otherwise
  returns a handle (never nil, never an error) for the first method of that name; the same
  holds of \<open>SignalByName\<close> and the signals.
\<close>

theorem ByName_panics_iff_missing:
  "(is_panic (MethodByName iface name) \<longleftrightarrow>
      name \<notin> methodData_Name ` set (interface_methods iface)) \<and>
   (name \<in> methodData_Name ` set (interface_methods iface) \<longrightarrow>
      (\<exists>data. MethodByName iface name =
                Returns \<lparr>method_iface = iface, method_MethodIntrospect = data\<rparr>
         \<and> data \<in> set (interface_methods iface) \<and> methodData_Name data = name)) \<and>
   (is_panic (SignalByName iface name) \<longleftrightarrow>
      name \<notin> signalData_Name ` set (interface_signals iface)) \<and>
   (name \<in> signalData_Name ` set (interface_signals iface) \<longrightarrow>
      (\<exists>data. SignalByName iface name =
                Returns \<lparr>signal_iface = iface, signal_SignalIntrospect = data\<rparr>
         \<and> data \<in> set (interface_signals iface) \<and> signalData_Name data = name))"
  using MethodByName_panics [of iface name] MethodByName_returns [of name iface]
    SignalByName_panics [of iface name] SignalByName_returns [of name iface]
  by blast

lemma GetProxy_methods:
  "map methodData_Name (interface_methods GetProxy) =
     [''RequestName'', ''ReleaseName'', ''StartServiceByName'', ''Hello'', ''NameHasOwner'',
      ''ListNames'', ''ListActivatableNames'', ''AddMatch'', ''RemoveMatch'', ''GetNameOwner'',
      ''ListQueuedOwners'', ''GetConnectionUnixUser'', ''GetConnectionUnixProcessID'',
      ''GetConnectionSELinuxSecurityContext'', ''ReloadConfig'']"
  by (simp add: GetProxy_def interface_methods_def GetInterfaceData_def dbusXMLIntro_def
      xml_method_def)

lemma GetProxy_signals:
  "map signalData_Name (interface_signals GetProxy) =
     [''NameOwnerChanged'', ''NameLost'', ''NameAcquired'']"
  by (simp add: GetProxy_def interface_signals_def GetInterfaceData_def dbusXMLIntro_def
      xml_signal_def)

text \<open>
  On the bus proxy, \<open>Hello\<close> is a method and not a signal, and \<open>NameLost\<close> is a signal
  and not a method.
\<close>

theorem ByName_panics_iff_missing_witness:
  "\<not> is_panic (MethodByName GetProxy ''Hello'') \<and>
   is_panic (MethodByName GetProxy ''NameLost'') \<and>
   \<not> is_panic (SignalByName GetProxy ''NameLost'') \<and>
   is_panic (SignalByName GetProxy ''Hello'') \<and>
   (\<exists>data. MethodByName GetProxy ''Hello'' =
             Returns \<lparr>method_iface = GetProxy, method_MethodIntrospect = data\<rparr>
      \<and> methodData_Name data = ''Hello'') \<and>
   (\<exists>data. SignalByName GetProxy ''NameLost'' =
             Returns \<lparr>signal_iface = GetProxy, signal_SignalIntrospect = data\<rparr>
      \<and> signalData_Name data = ''NameLost'')"
proof -
  have m: "''Hello'' \<in> methodData_Name ` set (interface_methods GetProxy)"
    and nm: "''NameLost'' \<notin> methodData_Name ` set (interface_methods GetProxy)"
    unfolding image_set GetProxy_methods by simp_all
  have s: "''NameLost'' \<in> signalData_Name ` set (interface_signals GetProxy)"
    and ns: "''Hello'' \<notin> signalData_Name ` set (interface_signals GetProxy)"
    unfolding image_set GetProxy_signals by simp_all
  from m nm s ns
    ByName_panics_iff_missing [of GetProxy "''Hello''"]
    ByName_panics_iff_missing [of GetProxy "''NameLost''"]
  show ?thesis by blast
qed

section \<open>The dispatcher\<close>

lemma dispatch_signal_filter:
  "dispatch_signal E msg hs =
     map (\<lambda>h. Invoked (proc h) msg) (filter (\<lambda>h. Match E (mr h) msg) hs)"
  by (induction hs) simp_all

lemma call_func_cases:
  "call_func f msg = Returns () \<or> (\<exists>s. call_func f msg = Panics s)"
  by (induction f msg rule: call_func.induct) simp_all

lemma MessageDispatch_METHOD_RETURN:
  "Type msg = METHOD_RETURN \<Longrightarrow>
   MessageDispatch E p (Some msg) =
     (case map_lookup (methodCallReplies p) (replySerial msg) of
        Some f \<Rightarrow>
          outcome_bind (call_func f msg) (\<lambda>u.
            Returns (p\<lparr>methodCallReplies := map_delete (methodCallReplies p) (replySerial msg)\<rparr>,
                     [Invoked f msg]))
      | None \<Rightarrow> Returns (p, []))"
  by (simp add: MessageDispatch_def Let_def)

lemma map_lookup_delete:
  "map_lookup (map_delete m k) s = (if s = k then None else map_lookup m s)"
  by (simp add: map_lookup_def map_delete_def split: option.splits)

lemma example_types:
  "Type example_reply = METHOD_RETURN" "Type example_stale_reply = METHOD_RETURN"
  "Type example_error = ERROR" "Type example_signal = SIGNAL" "Type example_signal_C = SIGNAL"
  "Type example_empty_reply = METHOD_RETURN"
  by (simp_all add: example_reply_def example_stale_reply_def example_error_def
      example_signal_def example_signal_C_def example_message_def example_empty_reply_def)

lemma example_replySerials:
  "replySerial example_reply = 7" "replySerial example_stale_reply = 9"
  "replySerial example_error = 7" "replySerial example_empty_reply = 8"
  by (simp_all add: example_reply_def example_stale_reply_def example_error_def
      example_message_def example_empty_reply_def)

lemma example_pending_lookup:
  "map_lookup (methodCallReplies example_pending) s =
     (if s = 8 then Some (SendSync_closure GetIntrospect_closure)
      else if s = 7 then Some (SendSync_closure Call_closure) else None)"
  by (simp add: example_pending_def map_lookup_def)

text \<open>
  The dispatch of a METHOD_RETURN whose stored function returns: the function is called
  once, with the message, nothing else is called, and afterwards exactly that entry is
  gone. When the stored function panics, so does the dispatch. A reply for a serial that
  is not registered is dropped.
\<close>

lemma METHOD_RETURN_dispatch:
  assumes "Type msg = METHOD_RETURN"
  shows "(\<forall>f. map_lookup (methodCallReplies p) (replySerial msg) = Some f
              \<and> call_func f msg = Returns () \<longrightarrow>
            MessageDispatch E p (Some msg) =
              Returns (p\<lparr>methodCallReplies := map_delete (methodCallReplies p) (replySerial msg)\<rparr>,
                       [Invoked f msg])
            \<and> (\<forall>s. map_lookup (methodCallReplies
                        (p\<lparr>methodCallReplies :=
                             map_delete (methodCallReplies p) (replySerial msg)\<rparr>)) s =
                     (if s = replySerial msg then None
                      else map_lookup (methodCallReplies p) s)))
       \<and> (\<forall>f s. map_lookup (methodCallReplies p) (replySerial msg) = Some f
              \<and> call_func f msg = Panics s \<longrightarrow> MessageDispatch E p (Some msg) = Panics s)
       \<and> (map_lookup (methodCallReplies p) (replySerial msg) = None \<longrightarrow>
            MessageDispatch E p (Some msg) = Returns (p, []))"
  using assms by (simp add: MessageDispatch_METHOD_RETURN map_lookup_delete)

lemma METHOD_RETURN_dispatch_example:
  "MessageDispatch example_collaborators example_pending (Some example_reply) =
     Returns (example_pending\<lparr>methodCallReplies :=
                map_delete (methodCallReplies example_pending) 7\<rparr>,
              [Invoked (SendSync_closure Call_closure) example_reply])
   \<and> MessageDispatch example_collaborators example_pending (Some example_stale_reply) =
       Returns (example_pending, [])"
  by (simp add: MessageDispatch_METHOD_RETURN example_types example_replySerials
      example_pending_lookup)

text \<open>
  Claim C2. With a call of \<open>_GetIntrospect\<close> pending under serial 8, a METHOD_RETURN
  with reply serial 8 and no argument arrives. The entry is registered, the dispatch calls
  its closure, the closure panics at \<open>reply.Params[0]\<close>, and the dispatch does not
  return: line 296 is not reached and the entry is not removed. The same happens in a run
  of \<open>Object\<close> on an initialized connection, whose call has serial 1.
\<close>

theorem METHOD_RETURN_closure_panics:
  "Type example_empty_reply = METHOD_RETURN
   \<and> map_lookup (methodCallReplies example_pending) (replySerial example_empty_reply) =
       Some (SendSync_closure GetIntrospect_closure)
   \<and> MessageDispatch example_collaborators example_pending (Some example_empty_reply) =
       Panics ''runtime error: index out of range [0] with length 0''
   \<and> Connection_Object example_collaborators example_initialized example_message
         ''org.example'' ''/'' [Some empty_reply] =
       Panics ''runtime error: index out of range [0] with length 0''"
proof -
  have a: "Params example_empty_reply = []"
    by (simp add: example_empty_reply_def example_message_def)
  have b: "MessageDispatch example_collaborators example_pending (Some example_empty_reply) =
       Panics ''runtime error: index out of range [0] with length 0''"
    by (simp add: MessageDispatch_METHOD_RETURN example_types example_replySerials
        example_pending_lookup a)
  have c: "Connection_Object example_collaborators example_initialized example_message
         ''org.example'' ''/'' [Some empty_reply] =
       Panics ''runtime error: index out of range [0] with length 0''"
    by (simp add: Connection_Object_def GetIntrospect_def SendSync_def Let_def
        GetIntrospect_message_def example_initialized_def example_connected_def
        empty_reply_def example_message_def MessageDispatch_def map_lookup_def)
  from b c show ?thesis
    by (simp add: example_types example_replySerials example_pending_lookup)
qed

text \<open>
  Claim C4. For every incoming SIGNAL the dispatch goes through the registered handlers in
  the order of their registration and calls, in that order, the handler of every rule
  that matches the message; the connection is unchanged, and when no rule matches nothing
  is called.
\<close>

theorem SIGNAL_dispatch:
  assumes "Type msg = SIGNAL"
  shows "MessageDispatch E p (Some msg) =
           Returns (p, map (\<lambda>h. Invoked (proc h) msg)
                         (filter (\<lambda>h. Match E (mr h) msg) (signalMatchRules p)))
       \<and> ((\<forall>h \<in> set (signalMatchRules p). \<not> Match E (mr h) msg) \<longrightarrow>
            MessageDispatch E p (Some msg) = Returns (p, []))"
  using assms by (simp add: MessageDispatch_def dispatch_signal_filter filter_empty_conv [THEN iffD2])

text \<open>
  Of three handlers, the first and the third match a signal of \<open>org.example.A\<close> and are
  called in that order; no rule of the first two handlers matches a signal of
  \<open>org.example.C\<close>.
\<close>

theorem SIGNAL_dispatch_witness:
  "MessageDispatch example_collaborators example_pending (Some example_signal) =
     Returns (example_pending,
              [Invoked (UserFunc 1) example_signal, Invoked (UserFunc 3) example_signal])
   \<and> MessageDispatch example_collaborators
         (example_pending\<lparr>signalMatchRules := take 2 (signalMatchRules example_pending)\<rparr>)
         (Some example_signal_C) =
       Returns (example_pending\<lparr>signalMatchRules := take 2 (signalMatchRules example_pending)\<rparr>, [])"
proof -
  let ?p = "example_pending\<lparr>signalMatchRules := take 2 (signalMatchRules example_pending)\<rparr>"
  have n: "\<forall>h \<in> set (signalMatchRules ?p). \<not> Match example_collaborators (mr h) example_signal_C"
    by (simp add: example_pending_def example_collaborators_def example_Match_def rule_any_def
        example_signal_C_def example_message_def)
  from SIGNAL_dispatch [OF example_types(4), of example_collaborators example_pending,
      THEN conjunct1]
  have a: "MessageDispatch example_collaborators example_pending (Some example_signal) =
     Returns (example_pending,
              [Invoked (UserFunc 1) example_signal, Invoked (UserFunc 3) example_signal])"
    by (simp add: example_pending_def example_collaborators_def example_Match_def rule_any_def
        example_signal_def example_message_def)
  from SIGNAL_dispatch [OF example_types(5), of example_collaborators ?p, THEN conjunct2] n
  have b: "MessageDispatch example_collaborators ?p (Some example_signal_C) = Returns (?p, [])"
    by blast
  from a b show ?thesis by blast
qed

text \<open>
  A message that is not a METHOD_RETURN leaves the connection as it is: an ERROR prints
  the line \<open>ERROR\<close> and calls nothing, whether or not its reply serial is registered.
\<close>

lemma ERROR_dispatch:
  assumes "Type msg = ERROR"
  shows "MessageDispatch E p (Some msg) = Returns (p, [Println ''ERROR''])"
  using assms by (simp add: MessageDispatch_def)

lemma MessageDispatch_unchanged:
  assumes "m = None \<or> (\<exists>msg. m = Some msg \<and> Type msg \<noteq> METHOD_RETURN)"
  shows "\<exists>evs. MessageDispatch E p m = Returns (p, evs)"
  using assms by (auto simp: MessageDispatch_def split: MessageType.splits)

section \<open>Address resolution\<close>

lemma Index_append: "sep \<notin> set a \<Longrightarrow> Index (a @ sep # b) sep = int (length a)"
  by (induction a) (auto simp: Let_def)

lemma Index_none: "sep \<notin> set a \<Longrightarrow> Index a sep = -1"
  by (induction a) (auto simp: Let_def)

lemma Split_none: "sep \<notin> set a \<Longrightarrow> Split a sep = [a]"
  by (induction a) auto

lemma Split_append: "sep \<notin> set a \<Longrightarrow> Split (a @ sep # b) sep = a # Split b sep"
  by (induction a) auto

lemma Split_pair:
  "sep \<notin> set k \<Longrightarrow> sep \<notin> set v \<Longrightarrow> Split (k @ sep # v) sep = [k, v]"
  by (simp add: Split_append Split_none)

lemma Split_pairs_text:
  "kvs \<noteq> [] \<Longrightarrow> \<forall>kv \<in> set kvs. plain_pair kv \<Longrightarrow>
   Split (pairs_text kvs) CHR '','' = map pair_text kvs"
proof (induction kvs rule: pairs_text.induct)
  case 1
  then show ?case by simp
next
  case (2 kv)
  then show ?case by (cases kv) (simp add: Split_none)
next
  case (3 kv kv' kvs)
  obtain k v where kv: "kv = (k, v)" by (cases kv)
  with 3 have "CHR '','' \<notin> set (pair_text kv)" by simp
  from Split_append [OF this, of "pairs_text (kv' # kvs)"] 3 show ?case by simp
qed

lemma Connect_pairs_text:
  "\<forall>kv \<in> set kvs. plain_pair kv \<Longrightarrow>
   Connect_pairs m (map pair_text kvs) = Returns (m ++ map_of (rev kvs))"
proof (induction kvs arbitrary: m)
  case Nil
  then show ?case by simp
next
  case (Cons kv kvs)
  obtain k v where kv: "kv = (k, v)" by (cases kv)
  with Cons.prems have s: "Split (pair_text kv) CHR ''='' = [k, v]"
    by (simp add: Split_pair)
  have "m(k \<mapsto> v) ++ map_of (rev kvs) = m ++ map_of (rev kvs @ [(k, v)])"
    by (simp add: map_add_upd_left map_add_def fun_eq_iff split: option.splits)
  with Cons s kv show ?case by simp
qed

lemma Connect_parse_text:
  assumes "CHR '':'' \<notin> set transport" "kvs \<noteq> []" "\<forall>kv \<in> set kvs. plain_pair kv"
  shows "Connect_parse (address_text transport kvs) = Returns (transport, map_of (rev kvs))"
proof -
  have "Index (transport @ '':'' @ pairs_text kvs) CHR '':'' = int (length transport)"
    using Index_append [OF assms(1)] by simp
  then show ?thesis
    using assms
    by (simp add: Connect_parse_def address_text_def Split_pairs_text Connect_pairs_text)
qed


lemma Connect_parsed:
  assumes "Connect_address getenv busType = Returns address" "address \<noteq> []"
    "Connect_parse address = Returns (transport, m)"
  shows "Connect getenv dial busType =
     (case m ''path'' of
        Some a \<Rightarrow> Connect_dial dial transport a m
      | None \<Rightarrow>
          (case m ''abstract'' of
             Some a \<Rightarrow> Connect_dial dial transport (''@'' @ a) m
           | None \<Rightarrow> Fails (Error ''Unknown address key'')))"
  using assms by (simp add: Connect_def)

lemma Connect_dial_Returns:
  "Connect_dial dial t a m = Returns p \<Longrightarrow> dial t a = Inr (conn p) \<and> addressMap p = m"
  by (auto simp: Connect_dial_def split: sum.splits)

lemma Connect_Returns:
  assumes "Connect getenv dial busType = Returns p"
  shows "\<exists>t a. dial t a = Inr (conn p) \<and>
           (addressMap p ''path'' = Some a \<or>
            addressMap p ''path'' = None \<and> (\<exists>v. addressMap p ''abstract'' = Some v \<and> a = ''@'' @ v))"
proof -
  from assms obtain address t m where
    r: "(case m ''path'' of
        Some a \<Rightarrow> Connect_dial dial t a m
      | None \<Rightarrow>
          (case m ''abstract'' of
             Some a \<Rightarrow> Connect_dial dial t (''@'' @ a) m
           | None \<Rightarrow> Fails (Error ''Unknown address key''))) = Returns p"
    by (auto simp: Connect_def outcome_bind_Returns split: if_splits)
  then show ?thesis
    by (auto split: option.splits dest!: Connect_dial_Returns)
qed

text \<open>
  How \<open>Connect\<close> resolves an address that parses. For the system bus with
  \<open>DBUS_SYSTEM_BUS_ADDRESS\<close> unset it dials the transport \<open>unix\<close> at
  \<open>/var/run/dbus/system_bus_socket\<close>. For an address \<open>transport:key=value,...\<close> of
  plain pairs (the last pair of a key counts): with a \<open>path\<close> key it dials the value as
  given; with no \<open>path\<close> but an \<open>abstract\<close> key it dials the value with \<open>@\<close> in
  front; with neither it returns the error \<open>Unknown address key\<close>. Dialing returns the
  dialer's error, or the connection over the socket it gave. And whatever the address,
  \<open>Connect\<close> returns a connection only over a socket dialed for a \<open>path\<close> or an
  \<open>abstract\<close> key.
\<close>

lemma Connect_resolves_parsed:
  "(getenv ''DBUS_SYSTEM_BUS_ADDRESS'' = [] \<longrightarrow>
      Connect getenv dial SystemBus =
        Connect_dial dial ''unix'' ''/var/run/dbus/system_bus_socket''
          [''path'' \<mapsto> ''/var/run/dbus/system_bus_socket''])
   \<and> (Connect_address getenv busType = Returns (address_text transport kvs)
        \<and> CHR '':'' \<notin> set transport \<and> kvs \<noteq> [] \<and> (\<forall>kv \<in> set kvs. plain_pair kv) \<longrightarrow>
      (\<forall>a. map_of (rev kvs) ''path'' = Some a \<longrightarrow>
         Connect getenv dial busType = Connect_dial dial transport a (map_of (rev kvs)))
      \<and> (\<forall>a. map_of (rev kvs) ''path'' = None \<and> map_of (rev kvs) ''abstract'' = Some a \<longrightarrow>
         Connect getenv dial busType = Connect_dial dial transport (''@'' @ a) (map_of (rev kvs)))
      \<and> (map_of (rev kvs) ''path'' = None \<and> map_of (rev kvs) ''abstract'' = None \<longrightarrow>
         Connect getenv dial busType = Fails (Error ''Unknown address key'')))
   \<and> (\<forall>err. dial t a = Inl err \<longrightarrow> Connect_dial dial t a m = Fails err)
   \<and> (\<forall>c. dial t a = Inr c \<longrightarrow>
         (\<exists>p. Connect_dial dial t a m = Returns p \<and> conn p = c \<and> addressMap p = m))
   \<and> (\<forall>p. Connect getenv dial busType = Returns p \<longrightarrow>
         (\<exists>t a. dial t a = Inr (conn p) \<and>
           (addressMap p ''path'' = Some a \<or>
            addressMap p ''path'' = None \<and>
              (\<exists>v. addressMap p ''abstract'' = Some v \<and> a = ''@'' @ v))))"
proof (intro conjI impI allI)
  assume "getenv ''DBUS_SYSTEM_BUS_ADDRESS'' = []"
  then have a: "Connect_address getenv SystemBus =
      Returns (address_text ''unix'' [(''path'', ''/var/run/dbus/system_bus_socket'')])"
    by (simp add: Connect_address_def SystemBus_def SessionBus_def address_text_def)
  have "Connect_parse (address_text ''unix'' [(''path'', ''/var/run/dbus/system_bus_socket'')]) =
      Returns (''unix'', map_of (rev [(''path'', ''/var/run/dbus/system_bus_socket'')]))"
    by (rule Connect_parse_text) simp_all
  from Connect_parsed [OF a _ this] show "Connect getenv dial SystemBus =
        Connect_dial dial ''unix'' ''/var/run/dbus/system_bus_socket''
          [''path'' \<mapsto> ''/var/run/dbus/system_bus_socket'']"
    by (simp add: address_text_def)
next
  fix a
  assume h: "Connect_address getenv busType = Returns (address_text transport kvs)
        \<and> CHR '':'' \<notin> set transport \<and> kvs \<noteq> [] \<and> (\<forall>kv \<in> set kvs. plain_pair kv)"
    and p: "map_of (rev kvs) ''path'' = Some a"
  from h have "Connect_parse (address_text transport kvs) = Returns (transport, map_of (rev kvs))"
    by (simp add: Connect_parse_text)
  from Connect_parsed [OF h [THEN conjunct1] _ this] p
  show "Connect getenv dial busType = Connect_dial dial transport a (map_of (rev kvs))"
    by (simp add: address_text_def)
next
  fix a
  assume h: "Connect_address getenv busType = Returns (address_text transport kvs)
        \<and> CHR '':'' \<notin> set transport \<and> kvs \<noteq> [] \<and> (\<forall>kv \<in> set kvs. plain_pair kv)"
    and p: "map_of (rev kvs) ''path'' = None \<and> map_of (rev kvs) ''abstract'' = Some a"
  from h have "Connect_parse (address_text transport kvs) = Returns (transport, map_of (rev kvs))"
    by (simp add: Connect_parse_text)
  from Connect_parsed [OF h [THEN conjunct1] _ this] p
  show "Connect getenv dial busType = Connect_dial dial transport (''@'' @ a) (map_of (rev kvs))"
    by (simp add: address_text_def)
next
  assume h: "Connect_address getenv busType = Returns (address_text transport kvs)
        \<and> CHR '':'' \<notin> set transport \<and> kvs \<noteq> [] \<and> (\<forall>kv \<in> set kvs. plain_pair kv)"
    and p: "map_of (rev kvs) ''path'' = None \<and> map_of (rev kvs) ''abstract'' = None"
  from h have "Connect_parse (address_text transport kvs) = Returns (transport, map_of (rev kvs))"
    by (simp add: Connect_parse_text)
  from Connect_parsed [OF h [THEN conjunct1] _ this] p
  show "Connect getenv dial busType = Fails (Error ''Unknown address key'')"
    by (simp add: address_text_def)
next
  fix err assume "dial t a = Inl err"
  then show "Connect_dial dial t a m = Fails err" by (simp add: Connect_dial_def)
next
  fix c assume "dial t a = Inr c"
  then show "\<exists>p. Connect_dial dial t a m = Returns p \<and> conn p = c \<and> addressMap p = m"
    by (simp add: Connect_dial_def)
next
  fix p assume "Connect getenv dial busType = Returns p"
  then show "\<exists>t a. dial t a = Inr (conn p) \<and>
           (addressMap p ''path'' = Some a \<or>
            addressMap p ''path'' = None \<and>
              (\<exists>v. addressMap p ''abstract'' = Some v \<and> a = ''@'' @ v))"
    by (rule Connect_Returns)
qed


text \<open>
  The address is the value of \<open>DBUS_SESSION_BUS_ADDRESS\<close> for the session bus and of
  \<open>DBUS_SYSTEM_BUS_ADDRESS\<close> for the system bus.
\<close>

lemma Connect_address_getenv:
  assumes "busType = SessionBus \<and> getenv ''DBUS_SESSION_BUS_ADDRESS'' = address_text transport kvs
         \<or> busType = SystemBus \<and> getenv ''DBUS_SYSTEM_BUS_ADDRESS'' = address_text transport kvs"
  shows "Connect_address getenv busType = Returns (address_text transport kvs)"
  using assms by (auto simp: Connect_address_def SessionBus_def SystemBus_def address_text_def)

lemma Connect_resolves_address:
  assumes "busType = SessionBus \<and> getenv ''DBUS_SESSION_BUS_ADDRESS'' = address_text transport kvs
         \<or> busType = SystemBus \<and> getenv ''DBUS_SYSTEM_BUS_ADDRESS'' = address_text transport kvs"
    and "CHR '':'' \<notin> set transport" "kvs \<noteq> []" "\<forall>kv \<in> set kvs. plain_pair kv"
  shows "(\<forall>a. map_of (rev kvs) ''path'' = Some a \<longrightarrow>
           Connect getenv dial busType = Connect_dial dial transport a (map_of (rev kvs)))
       \<and> (\<forall>a. map_of (rev kvs) ''path'' = None \<and> map_of (rev kvs) ''abstract'' = Some a \<longrightarrow>
           Connect getenv dial busType =
             Connect_dial dial transport (''@'' @ a) (map_of (rev kvs)))
       \<and> (map_of (rev kvs) ''path'' = None \<and> map_of (rev kvs) ''abstract'' = None \<longrightarrow>
           Connect getenv dial busType = Fails (Error ''Unknown address key''))"
  using Connect_resolves_parsed [of getenv dial busType transport kvs, THEN conjunct2, THEN conjunct1]
    Connect_address_getenv [OF assms(1)] assms(2-4)
  by blast

text \<open>
  With no variable set the system bus is dialed at the fallback path; a session address
  with an \<open>abstract\<close> key is dialed at \<open>@/tmp/dbus-1\<close>, one with a \<open>path\<close> key at
  \<open>/tmp/bus\<close>, and one over TCP, which has neither key, gives the error.
\<close>

lemma Connect_examples:
  "Connect example_getenv example_dial SystemBus = Returns example_connected"
  "map_option (NetConn_address \<circ> conn)
     (returned (Connect example_getenv_abstract example_dial SessionBus)) = Some ''@/tmp/dbus-1''"
  "map_option (NetConn_address \<circ> conn)
     (returned (Connect example_getenv_path example_dial SessionBus)) = Some ''/tmp/bus''"
  "Connect example_getenv_tcp example_dial SessionBus = Fails (Error ''Unknown address key'')"
  by (simp_all add: Connect_def Connect_address_def SessionBus_def SystemBus_def
      Connect_parse_def Connect_dial_def example_dial_def example_getenv_def
      example_getenv_abstract_def example_getenv_path_def example_getenv_tcp_def
      example_connected_def example_conn_def)

text \<open>
  An address that is not of that shape makes \<open>Connect\<close> panic instead of returning an
  error: one without a colon at the slice of line 218, a pair without \<open>=\<close> at the index
  of line 224, also when another pair has the \<open>path\<close> key.
\<close>

lemma Connect_panics_on_garbled_address:
  "Connect (\<lambda>name. ''garbled'') dial SessionBus =
     Panics ''runtime error: slice bounds out of range [:-1]''"
  "Connect (\<lambda>name. ''unix:nokey'') dial SessionBus =
     Panics ''runtime error: index out of range [1] with length 1''"
  "Connect (\<lambda>name. ''unix:path=/tmp/bus,'') dial SessionBus =
     Panics ''runtime error: index out of range [1] with length 1''"
  by (simp_all add: Connect_def Connect_address_def SessionBus_def Connect_parse_def)

text \<open>
  Claim C7. The session bus address is \<open>autolaunch:\<close>, an address with neither a
  \<open>path\<close> nor an \<open>abstract\<close> key. \<open>Connect\<close> does not return the error
  \<open>Unknown address key\<close>: the text after the colon is split into the one empty pair,
  which has no \<open>pair[1]\<close>, and line 224 panics. An address with well-formed pairs and
  neither key, as one over TCP, does return the error.
\<close>

theorem Connect_panics_on_autolaunch:
  "example_getenv_autolaunch ''DBUS_SESSION_BUS_ADDRESS'' = ''autolaunch:''
   \<and> Connect example_getenv_autolaunch example_dial SessionBus =
       Panics ''runtime error: index out of range [1] with length 1''
   \<and> Connect example_getenv_autolaunch example_dial SessionBus \<noteq>
       Fails (Error ''Unknown address key'')
   \<and> Connect example_getenv_tcp example_dial SessionBus = Fails (Error ''Unknown address key'')"
  by (simp add: Connect_def Connect_address_def SessionBus_def Connect_parse_def
      example_getenv_autolaunch_def example_getenv_tcp_def)

section \<open>The receive buffer\<close>

lemma PopMessage_error:
  "buffer p = Some b \<Longrightarrow> Unmarshal E b = (msg, n, Some err) \<Longrightarrow>
   PopMessage E p = Returns (p, None, Some err)"
  by (simp add: PopMessage_def)

lemma PopMessage_success:
  "buffer p = Some b \<Longrightarrow> Unmarshal E b = (msg, n, None) \<Longrightarrow> 0 \<le> n \<Longrightarrow>
   PopMessage E p = Returns (p\<lparr>buffer := Some (drop (nat n) b)\<rparr>, msg, None)"
  by (simp add: PopMessage_def)

text \<open>
  Claim C6. When decoding a message from the front of the buffer fails, whatever the
  error, \<open>_PopMessage\<close> leaves the connection as it is, and the turn of the receiver
  only appends what the socket delivers: no byte is removed. When decoding succeeds
  and reports the count \<open>n\<close>, the buffer afterwards is the old one without its first
  \<open>n\<close> bytes (for a count within the buffer, exactly \<open>n\<close> bytes are cut from the front),
  and the message goes to the channel.
\<close>

theorem PopMessage_removes_only_decoded:
  assumes "buffer p = Some b"
  shows "(\<forall>msg n err. Unmarshal E b = (msg, n, Some err) \<longrightarrow>
            PopMessage E p = Returns (p, None, Some err)
          \<and> MessageReceiver_turn E p rd =
              Returns (p\<lparr>buffer := Some (b @ take 4096 (fst rd))\<rparr>, [], True))
       \<and> (\<forall>msg n. Unmarshal E b = (msg, n, None) \<and> 0 \<le> n \<longrightarrow>
            PopMessage E p = Returns (p\<lparr>buffer := Some (drop (nat n) b)\<rparr>, msg, None)
          \<and> MessageReceiver_turn E p rd =
              Returns (p\<lparr>buffer := Some (drop (nat n) b)\<rparr>, [msg], False)
          \<and> (nat n \<le> length b \<longrightarrow>
                (\<exists>front. b = front @ drop (nat n) b \<and> int (length front) = n)))"
proof (intro conjI allI impI)
  fix msg n err
  assume u: "Unmarshal E b = (msg, n, Some err)"
  from PopMessage_error [OF assms u]
  show "PopMessage E p = Returns (p, None, Some err)" .
  then show "MessageReceiver_turn E p rd =
      Returns (p\<lparr>buffer := Some (b @ take 4096 (fst rd))\<rparr>, [], True)"
    using assms by (simp add: MessageReceiver_turn_def UpdateBuffer_def)
next
  fix msg n
  assume u: "Unmarshal E b = (msg, n, None) \<and> 0 \<le> n"
  from PopMessage_success [OF assms u [THEN conjunct1] u [THEN conjunct2]]
  show "PopMessage E p = Returns (p\<lparr>buffer := Some (drop (nat n) b)\<rparr>, msg, None)" .
  then show "MessageReceiver_turn E p rd =
      Returns (p\<lparr>buffer := Some (drop (nat n) b)\<rparr>, [msg], False)"
    by (simp add: MessageReceiver_turn_def)
  assume "nat n \<le> length b"
  with u have "b = take (nat n) b @ drop (nat n) b \<and> int (length (take (nat n) b)) = n"
    by simp
  then show "\<exists>front. b = front @ drop (nat n) b \<and> int (length front) = n"
    by blast
qed

text \<open>
  A decoder of one-byte frames on the buffer 7, 8 removes the 7; on the empty buffer it
  reports an error, nothing is removed, and the turn appends the bytes read.
\<close>

theorem PopMessage_removes_only_decoded_witness:
  "map_option (buffer \<circ> fst) (returned (PopMessage example_collaborators example_pending)) =
     Some (Some [8])
   \<and> map_option (buffer \<circ> fst)
        (returned (PopMessage example_collaborators (example_pending\<lparr>buffer := Some []\<rparr>))) =
     Some (Some [])
   \<and> map_option (buffer \<circ> fst)
        (returned (MessageReceiver_turn example_collaborators (example_pending\<lparr>buffer := Some []\<rparr>)
           ([1, 2, 3], None))) =
     Some (Some [1, 2, 3])"
proof -
  let ?q = "example_pending\<lparr>buffer := Some []\<rparr>"
  have b: "buffer example_pending = Some [7, 8]" "buffer ?q = Some []"
    by (simp_all add: example_pending_def)
  have u: "Unmarshal example_collaborators [7, 8] =
        (Some (example_message\<lparr>Type := METHOD_RETURN, replySerial := 7\<rparr>), 1, None) \<and> (0::int) \<le> 1"
    "Unmarshal example_collaborators [] = (None, 0, Some (Error ''incomplete''))"
    by (simp_all add: example_collaborators_def example_Unmarshal_def)
  from PopMessage_removes_only_decoded [OF b(1), of example_collaborators, THEN conjunct2,
      rule_format, OF u(1)]
  have 1: "PopMessage example_collaborators example_pending =
      Returns (example_pending\<lparr>buffer := Some [8]\<rparr>,
        Some (example_message\<lparr>Type := METHOD_RETURN, replySerial := 7\<rparr>), None)"
    by simp
  from PopMessage_removes_only_decoded [OF b(2), of example_collaborators "([1, 2, 3], None)",
      THEN conjunct1, rule_format, OF u(2)]
  have 2: "PopMessage example_collaborators ?q = Returns (?q, None, Some (Error ''incomplete''))"
    and 3: "MessageReceiver_turn example_collaborators ?q ([1, 2, 3], None) =
      Returns (?q\<lparr>buffer := Some ([] @ take 4096 (fst ([1, 2, 3], None)))\<rparr>, [], True)"
    by simp_all
  show ?thesis using 1 2 3 by simp
qed


text \<open>A decoder that reports a negative count makes \<open>make([]byte, n)\<close> panic.\<close>

lemma PopMessage_negative_count:
  "buffer p = Some b \<Longrightarrow> Unmarshal E b = (msg, n, None) \<Longrightarrow> n < 0 \<Longrightarrow>
   PopMessage E p = Panics ''runtime error: makeslice: len out of range''"
  by (simp add: PopMessage_def)

section \<open>Calls\<close>

lemma outcome_bind_Fails:
  "outcome_bind x f = Fails e \<longleftrightarrow> x = Fails e \<or> (\<exists>v. x = Returns v \<and> f v = Fails e)"
  by (cases x) simp_all

text \<open>A dispatch changes no field but methodCallReplies, and it returns or panics.\<close>

lemma MessageDispatch_frame:
  "MessageDispatch E p m = Returns (p1, evs) \<Longrightarrow>
   p1 = p\<lparr>methodCallReplies := methodCallReplies p1\<rparr>"
  by (auto simp: MessageDispatch_def Let_def outcome_bind_Returns
      split: option.splits MessageType.splits)

lemma MessageDispatch_not_Fails: "MessageDispatch E p m \<noteq> Fails e"
proof -
  have "\<And>f msg. call_func f msg \<noteq> Fails e"
    using call_func_cases by (metis outcome.distinct(1) outcome.distinct(7))
  then show ?thesis
    by (auto simp: MessageDispatch_def Let_def outcome_bind_Fails
        split: option.splits MessageType.splits)
qed

lemma recvChan_frame:
  "recvChan E seri p msgs = Returns (p', evs, rmsg, rest) \<Longrightarrow>
   p' = p\<lparr>methodCallReplies := methodCallReplies p'\<rparr>"
proof (induction msgs arbitrary: p p' evs)
  case Nil
  then show ?case by simp
next
  case (Cons m ms)
  from Cons.prems obtain p1 evs1 where d: "MessageDispatch E p m = Returns (p1, evs1)"
    and k: "(case wakes p seri m of
               Some rmsg \<Rightarrow> Returns (p1, evs1, rmsg, ms)
             | None \<Rightarrow>
                 outcome_bind (recvChan E seri p1 ms) (\<lambda>(p2, evs', rmsg, rest).
                   Returns (p2, evs1 @ evs', rmsg, rest))) = Returns (p', evs, rmsg, rest)"
    by (auto simp: outcome_bind_Returns)
  from MessageDispatch_frame [OF d]
  have p1: "p1 = p\<lparr>methodCallReplies := methodCallReplies p1\<rparr>" .
  show ?case
  proof (cases "wakes p seri m")
    case None
    with k obtain evs2 where "recvChan E seri p1 ms = Returns (p', evs2, rmsg, rest)"
      by (auto simp: outcome_bind_Returns)
    from Cons.IH [OF this] have "p' = p1\<lparr>methodCallReplies := methodCallReplies p'\<rparr>" .
    then have "p' = p\<lparr>methodCallReplies := methodCallReplies p1\<rparr>
                     \<lparr>methodCallReplies := methodCallReplies p'\<rparr>"
      using p1 by simp
    then show ?thesis by simp
  next
    case (Some a)
    with k p1 show ?thesis by auto
  qed
qed

lemma recvChan_not_Fails: "recvChan E seri p msgs \<noteq> Fails e"
proof (induction msgs arbitrary: p)
  case Nil show ?case by simp
next
  case (Cons m ms)
  show ?case
    by (cases "wakes p seri m")
       (auto simp: outcome_bind_Fails Cons MessageDispatch_not_Fails split: prod.splits)
qed

lemma SendSync_not_Fails: "SendSync E p msg callback msgs \<noteq> Fails e"
  by (simp add: SendSync_def Let_def recvChan_not_Fails split: option.splits)

lemma SendSync_frame:
  assumes "SendSync E p msg callback msgs = Returns (p', evs, rmsg, rest)"
  shows "p' = p\<lparr>conn := fst (NetConn_Write (conn p) (fst (Marshal E msg))),
                  methodCallReplies := methodCallReplies p'\<rparr>"
proof -
  from assms obtain replies where
    "recvChan E (word_of_int (serial msg))
       (p\<lparr>methodCallReplies := Some (replies(word_of_int (serial msg) \<mapsto> SendSync_closure callback)),
          conn := fst (NetConn_Write (conn p) (fst (Marshal E msg)))\<rparr>) msgs =
     Returns (p', evs, rmsg, rest)"
    by (auto simp: SendSync_def Let_def split: option.splits)
  from recvChan_frame [OF this] show ?thesis by simp
qed


lemma SendSync_fields:
  assumes "SendSync E p msg callback msgs = Returns (p', evs, rmsg, rest)"
  shows "uniqName p' = uniqName p" "signalMatchRules p' = signalMatchRules p"
    "buffer p' = buffer p" "proxy p' = proxy p" "addressMap p' = addressMap p"
proof -
  note e = SendSync_frame [OF assms]
  from arg_cong [OF e, of uniqName] show "uniqName p' = uniqName p" by simp
  from arg_cong [OF e, of signalMatchRules] show "signalMatchRules p' = signalMatchRules p" by simp
  from arg_cong [OF e, of buffer] show "buffer p' = buffer p" by simp
  from arg_cong [OF e, of proxy] show "proxy p' = proxy p" by simp
  from arg_cong [OF e, of addressMap] show "addressMap p' = addressMap p" by simp
qed

lemma Call_Returns:
  "Call E p msg0 meth args msgs = Returns (p', evs, ret, err, rest) \<longleftrightarrow>
   (\<exists>reply. SendSync E p (Call_message E msg0 meth args) Call_closure msgs =
              Returns (p', evs, reply, rest) \<and> ret = Params reply \<and> err = None)"
  by (auto simp: Call_def outcome_bind_Returns)

lemma Call_not_Fails: "Call E p msg0 meth args msgs \<noteq> Fails e"
  by (auto simp: Call_def outcome_bind_Fails SendSync_not_Fails)

lemma Call_fields:
  assumes "Call E p msg0 meth args msgs = Returns (p', evs, ret, err, rest)"
  shows "uniqName p' = uniqName p" "signalMatchRules p' = signalMatchRules p"
    "buffer p' = buffer p" "proxy p' = proxy p" "addressMap p' = addressMap p"
proof -
  from assms obtain reply where
    r: "SendSync E p (Call_message E msg0 meth args) Call_closure msgs = Returns (p', evs, reply, rest)"
    unfolding Call_Returns by blast
  from SendSync_fields [OF r]
  show "uniqName p' = uniqName p" "signalMatchRules p' = signalMatchRules p"
    "buffer p' = buffer p" "proxy p' = proxy p" "addressMap p' = addressMap p" .
qed

text \<open>The reply for the call's serial, arriving first, ends the wait.\<close>

lemma recvChan_reply_first:
  assumes "Type reply = METHOD_RETURN" "replySerial reply = seri"
    "map_lookup (methodCallReplies p) seri = Some f" "call_func f reply = Returns ()"
  shows "recvChan E seri p (Some reply # rest) =
     Returns (p\<lparr>methodCallReplies := map_delete (methodCallReplies p) seri\<rparr>,
              [Invoked f reply], reply, rest)"
  using assms by (simp add: wakes_def MessageDispatch_def Let_def)

lemma Call_reply_first:
  assumes "methodCallReplies p = Some replies" "Type reply = METHOD_RETURN"
    "replySerial reply = word_of_int (serial msg0)"
  shows "\<exists>p'. Call E p msg0 meth args (Some reply # rest) =
     Returns (p', [Invoked (SendSync_closure Call_closure) reply], Params reply, None, rest)"
proof -
  have s: "serial (Call_message E msg0 meth args) = serial msg0"
    by (simp add: Call_message_def Let_def)
  let ?seri = "word_of_int (serial msg0) :: 32 word"
  let ?p2 = "p\<lparr>methodCallReplies := Some (replies(?seri \<mapsto> SendSync_closure Call_closure)),
               conn := fst (NetConn_Write (conn p) (fst (Marshal E (Call_message E msg0 meth args))))\<rparr>"
  have l: "map_lookup (methodCallReplies ?p2) ?seri = Some (SendSync_closure Call_closure)"
    by (simp add: map_lookup_def)
  have "SendSync E p (Call_message E msg0 meth args) Call_closure (Some reply # rest) =
      recvChan E ?seri ?p2 (Some reply # rest)"
    using assms(1) by (simp add: SendSync_def Let_def s)
  also have "\<dots> = Returns (?p2\<lparr>methodCallReplies := map_delete (methodCallReplies ?p2) ?seri\<rparr>,
      [Invoked (SendSync_closure Call_closure) reply], reply, rest)"
    by (rule recvChan_reply_first [OF assms(2) assms(3) l]) simp
  finally show ?thesis
    by (simp add: Call_def)
qed



lemma RunLoop_Cons:
  "RunLoop E p (m # ms) = Returns (p', evs) \<longleftrightarrow>
   (\<exists>p1 evs1 evs2. MessageDispatch E p m = Returns (p1, evs1)
      \<and> RunLoop E p1 ms = Returns (p', evs2) \<and> evs = evs1 @ evs2)"
  by (auto simp: outcome_bind_Returns)

lemma RunLoop_fields:
  "RunLoop E p msgs = Returns (p', evs) \<Longrightarrow> p' = p\<lparr>methodCallReplies := methodCallReplies p'\<rparr>"
proof (induction msgs arbitrary: p p' evs)
  case Nil
  then show ?case by simp
next
  case (Cons m ms)
  from Cons.prems obtain p1 evs1 evs2 where d: "MessageDispatch E p m = Returns (p1, evs1)"
    and r: "RunLoop E p1 ms = Returns (p', evs2)"
    unfolding RunLoop_Cons by blast
  from MessageDispatch_frame [OF d]
  have p1: "p1 = p\<lparr>methodCallReplies := methodCallReplies p1\<rparr>" .
  from Cons.IH [OF r] have "p' = p1\<lparr>methodCallReplies := methodCallReplies p'\<rparr>" .
  then have "p' = p\<lparr>methodCallReplies := methodCallReplies p1\<rparr>
                   \<lparr>methodCallReplies := methodCallReplies p'\<rparr>"
    using p1 by simp
  then show ?case by simp
qed


text \<open>
  Claim C1. A call is pending under serial 7 and an ERROR with reply serial 7 arrives: the
  dispatch prints \<open>ERROR\<close>, the closure is not called and the entry stays registered,
  while a METHOD_RETURN with the same reply serial calls the closure and removes the
  entry. So a call that the bus answers with an error never returns: \<open>Call\<close> of
  \<open>AddMatch\<close> with serial 1 stays blocked at line 336 when the error reply for serial 1
  is dispatched, and returns when the same message comes as a METHOD_RETURN.
\<close>

theorem ERROR_reply_not_delivered:
  "map_lookup (methodCallReplies example_pending) (replySerial example_error) =
     Some (SendSync_closure Call_closure)
   \<and> MessageDispatch example_collaborators example_pending (Some example_error) =
       Returns (example_pending, [Println ''ERROR''])
   \<and> MessageDispatch example_collaborators example_pending (Some example_reply) =
       Returns (example_pending\<lparr>methodCallReplies :=
                  map_delete (methodCallReplies example_pending) 7\<rparr>,
                [Invoked (SendSync_closure Call_closure) example_reply])
   \<and> Call example_collaborators example_initialized example_message example_AddMatch
         [VString ''type=signal''] [Some error_reply] = Blocks
   \<and> map_option (fst \<circ> snd \<circ> snd)
         (returned (Call example_collaborators example_initialized example_message
            example_AddMatch [VString ''type=signal'']
            [Some (error_reply\<lparr>Type := METHOD_RETURN\<rparr>)])) =
       Some (Params error_reply)"
proof -
  have a: "MessageDispatch example_collaborators example_pending (Some example_error) =
       Returns (example_pending, [Println ''ERROR''])"
    by (simp add: MessageDispatch_def example_types)
  have b: "Call example_collaborators example_initialized example_message example_AddMatch
         [VString ''type=signal''] [Some error_reply] = Blocks"
    by (simp add: Call_def SendSync_def Let_def Call_message_def example_message_def
        example_initialized_def example_connected_def error_reply_def wakes_def
        MessageDispatch_def)
  have c: "map_option (fst \<circ> snd \<circ> snd)
         (returned (Call example_collaborators example_initialized example_message
            example_AddMatch [VString ''type=signal'']
            [Some (error_reply\<lparr>Type := METHOD_RETURN\<rparr>)])) =
       Some (Params error_reply)"
    by (simp add: Call_def SendSync_def Let_def Call_message_def example_message_def
        example_initialized_def example_connected_def error_reply_def wakes_def
        MessageDispatch_def map_lookup_def)
  from a b c show ?thesis
    by (simp add: example_replySerials example_pending_lookup
        METHOD_RETURN_dispatch_example [THEN conjunct1])
qed

text \<open>
  Claim C9. \<open>Call\<close> never yields an error: it does not return one in place of a
  result, and whenever it returns, its error value is nil, for every marshaller and every
  socket, so also when marshalling fails and when the write fails. And it does return:
  when the reply for the call's serial is the next message dispatched, \<open>Call\<close> returns
  the reply's arguments and a nil error.
\<close>

theorem Call_error_always_nil:
  "Call E p msg0 meth args msgs \<noteq> Fails e
   \<and> (Call E p msg0 meth args msgs = Returns (p', evs, ret, err, rest) \<longrightarrow> err = None)
   \<and> (methodCallReplies p = Some replies \<and> Type reply = METHOD_RETURN
        \<and> replySerial reply = word_of_int (serial msg0) \<longrightarrow>
      (\<exists>p1. Call E p msg0 meth args (Some reply # rest) =
         Returns (p1, [Invoked (SendSync_closure Call_closure) reply], Params reply, None, rest)))"
  using Call_not_Fails [of E p msg0 meth args msgs e]
    Call_Returns [of E p msg0 meth args msgs p' evs ret err rest]
    Call_reply_first [of p replies reply msg0 E meth args rest]
  by blast

text \<open>
  The marshaller fails and the socket is broken; the reply arrives all the same, and
  \<open>Call\<close> returns its argument with a nil error.
\<close>

theorem Call_error_always_nil_witness:
  "snd (Marshal example_collaborators (Call_message example_collaborators example_message example_method [])) =
     Some (Error ''marshal'')
   \<and> snd (snd (NetConn_Write (conn example_pending) [])) = Some (Error ''write: broken pipe'')
   \<and> map_option (fst \<circ> snd \<circ> snd \<circ> snd)
        (returned (Call example_collaborators example_pending example_message example_method []
           [Some hello_reply])) = Some None
   \<and> map_option (fst \<circ> snd \<circ> snd)
        (returned (Call example_collaborators example_pending example_message example_method []
           [Some hello_reply])) = Some [VString '':1.42'']"
proof -
  have h: "methodCallReplies example_pending =
      Some [7 \<mapsto> SendSync_closure Call_closure, 8 \<mapsto> SendSync_closure GetIntrospect_closure]
    \<and> Type hello_reply = METHOD_RETURN
    \<and> replySerial hello_reply = word_of_int (serial example_message)"
    by (simp add: example_pending_def hello_reply_def example_message_def)
  from Call_error_always_nil [of example_collaborators example_pending example_message
      example_method "[]" "[Some hello_reply]", THEN conjunct2, THEN conjunct2, rule_format, OF h]
  obtain p1 where "Call example_collaborators example_pending example_message example_method []
      [Some hello_reply] =
    Returns (p1, [Invoked (SendSync_closure Call_closure) hello_reply], Params hello_reply, None, [])"
    by blast
  then show ?thesis
    by (simp add: example_collaborators_def example_pending_def example_connected_def
        example_conn_def NetConn_Write_def hello_reply_def)
qed


section \<open>Registering a handler\<close>

lemma MethodByName_GetProxy:
  "MethodByName GetProxy ''Hello'' = Returns example_method"
  "MethodByName GetProxy ''AddMatch'' = Returns example_AddMatch"
  by (simp_all add: MethodByName_def GetProxy_def GetInterfaceData_def dbusXMLIntro_def
      interfaceData_MethodByName_def GetMethodData_def example_method_def example_AddMatch_def
      xml_method_def)

lemma Handle_Returns:
  assumes "Handle E p msg0 rule handler msgs = Returns (p', evs, rest)"
  shows "\<exists>pr meth reply. proxy p = Some pr \<and> MethodByName pr ''AddMatch'' = Returns meth
           \<and> SendSync E (Handle_register p rule handler)
                (Call_message E msg0 meth [VString (ToString E rule)]) Call_closure msgs =
              Returns (p', evs, reply, rest)"
  using assms
  by (auto simp: Handle_def Handle_AddMatch_def Handle_register_def outcome_bind_Returns
      Call_Returns split: option.splits)














section \<open>The unique name\<close>

lemma Emit_uniqName:
  "Emit E p msg0 sig args = Returns (p', err) \<Longrightarrow> uniqName p' = uniqName p"
  by (auto simp: Emit_def Let_def split: prod.splits)

lemma GetIntrospect_uniqName:
  assumes "GetIntrospect E p msg0 dest path msgs = Returns (p', evs, intro, rest)"
  shows "uniqName p' = uniqName p"
proof -
  from assms obtain reply where
    "SendSync E p (GetIntrospect_message msg0 dest path) GetIntrospect_closure msgs =
       Returns (p', evs, reply, rest)"
    by (auto simp: GetIntrospect_def outcome_bind_Returns)
  from SendSync_fields(1) [OF this] show ?thesis .
qed

lemma Connection_Object_uniqName:
  assumes "Connection_Object E p msg0 dest path msgs = Returns (p', evs, obj, rest)"
  shows "uniqName p' = uniqName p"
proof -
  from assms obtain intro where
    "GetIntrospect E p msg0 dest path msgs = Returns (p', evs, intro, rest)"
    by (auto simp: Connection_Object_def outcome_bind_Returns)
  then show ?thesis by (rule GetIntrospect_uniqName)
qed

lemma Handle_uniqName:
  assumes "Handle E p msg0 rule handler msgs = Returns (p', evs, rest)"
  shows "uniqName p' = uniqName p"
proof -
  from Handle_Returns [OF assms] obtain meth reply where
    "SendSync E (Handle_register p rule handler)
       (Call_message E msg0 meth [VString (ToString E rule)]) Call_closure msgs =
     Returns (p', evs, reply, rest)"
    by blast
  from SendSync_fields(1) [OF this] show ?thesis by (simp add: Handle_register_def)
qed

lemma SendHello_uniqName:
  assumes "SendHello E p msg0 msgs = Returns (p', evs, rest)"
  shows "uniqName p' = uniqName p"
proof -
  from assms obtain meth ret err where
    "Call E p msg0 meth [] msgs = Returns (p', evs, ret, err, rest)"
    by (auto simp: SendHello_def outcome_bind_Returns split: option.splits)
  then show ?thesis by (rule Call_fields(1))
qed

lemma Initialize_uniqName:
  assumes "Initialize E p msg0 msgs = Returns (p', evs, err, rest)"
  shows "uniqName p' = uniqName p"
proof -
  let ?p1 = "p\<lparr>methodCallReplies := Some Map.empty, signalMatchRules := [],
                 proxy := Some GetProxy, buffer := Some []\<rparr>"
  obtain p2 e where a: "Auth E ?p1 = (p2, e)" by (cases "Auth E ?p1")
  then have u: "uniqName p2 = uniqName p"
    by (auto simp: Auth_def split: prod.splits)
  show ?thesis
  proof (cases e)
    case None
    with assms a obtain p3 where "SendHello E p2 msg0 msgs = Returns (p3, evs, rest)" "p' = p3"
      by (auto simp: Initialize_def Let_def outcome_bind_Returns)
    with SendHello_uniqName [of E p2 msg0 msgs p3 evs rest] u show ?thesis by simp
  next
    case (Some err)
    with assms a u show ?thesis by (auto simp: Initialize_def Let_def)
  qed
qed

lemma RunLoop_uniqName:
  assumes "RunLoop E p msgs = Returns (p', evs)"
  shows "uniqName p' = uniqName p"
  using arg_cong [OF RunLoop_fields [OF assms], of uniqName] by simp

lemma PopMessage_uniqName:
  "PopMessage E p = Returns (p', msg, err) \<Longrightarrow> uniqName p' = uniqName p"
  by (auto simp: PopMessage_def split: option.splits prod.splits if_splits)

lemma UpdateBuffer_uniqName:
  "UpdateBuffer p rd = Returns (p', err) \<Longrightarrow> uniqName p' = uniqName p"
  by (auto simp: UpdateBuffer_def split: option.splits)

lemma MessageReceiver_uniqName:
  "MessageReceiver E k p reads = Returns (p', msgs, rest) \<Longrightarrow> uniqName p' = uniqName p"
proof (induction k arbitrary: p reads p' msgs rest)
  case 0
  then show ?case by simp
next
  case (Suc k)
  from Suc.prems obtain p1 msg e where pop: "PopMessage E p = Returns (p1, msg, e)"
    by (auto simp: outcome_bind_Returns)
  note u1 = PopMessage_uniqName [OF pop]
  show ?case
  proof (cases e)
    case None
    with Suc.prems pop obtain msgs' where "MessageReceiver E k p1 reads = Returns (p', msgs', rest)"
      by (auto simp: outcome_bind_Returns)
    from Suc.IH [OF this] u1 show ?thesis by simp
  next
    case (Some err)
    show ?thesis
    proof (cases reads)
      case Nil
      with Some Suc.prems pop u1 show ?thesis by simp
    next
      case (Cons rd reads')
      with Some Suc.prems pop obtain p2 e2 where
        ub: "UpdateBuffer p1 rd = Returns (p2, e2)"
        and r: "MessageReceiver E k p2 reads' = Returns (p', msgs, rest)"
        by (auto simp: outcome_bind_Returns)
      from Suc.IH [OF r] UpdateBuffer_uniqName [OF ub] u1 show ?thesis by simp
    qed
  qed
qed

lemma perform_uniqName:
  "perform E p operation = Returns p' \<Longrightarrow> uniqName p' = uniqName p"
proof (cases operation)
  case (Do_Initialize msg0 msgs)
  assume "perform E p operation = Returns p'"
  with Do_Initialize show ?thesis
    by (auto simp: outcome_bind_Returns intro: Initialize_uniqName)
next
  case (Do_Call msg0 meth args msgs)
  assume "perform E p operation = Returns p'"
  with Do_Call show ?thesis
    by (auto simp: outcome_bind_Returns intro: Call_fields(1))
next
  case (Do_Emit msg0 sig args)
  assume "perform E p operation = Returns p'"
  with Do_Emit show ?thesis
    by (auto simp: outcome_bind_Returns intro: Emit_uniqName)
next
  case (Do_Object msg0 dest path msgs)
  assume "perform E p operation = Returns p'"
  with Do_Object show ?thesis
    by (auto simp: outcome_bind_Returns intro: Connection_Object_uniqName)
next
  case (Do_Handle msg0 rule handler msgs)
  assume "perform E p operation = Returns p'"
  with Do_Handle show ?thesis
    by (auto simp: outcome_bind_Returns intro: Handle_uniqName)
next
  case (Do_RunLoop msgs)
  assume "perform E p operation = Returns p'"
  with Do_RunLoop show ?thesis
    by (auto simp: outcome_bind_Returns intro: RunLoop_uniqName)
next
  case (Do_MessageReceiver k reads)
  assume "perform E p operation = Returns p'"
  with Do_MessageReceiver show ?thesis
    by (auto simp: outcome_bind_Returns intro: MessageReceiver_uniqName)
qed

lemma perform_all_uniqName:
  "perform_all E p operations = Returns p' \<Longrightarrow> uniqName p' = uniqName p"
proof (induction operations arbitrary: p)
  case Nil
  then show ?case by simp
next
  case (Cons operation operations)
  then obtain p1 where "perform E p operation = Returns p1"
    "perform_all E p1 operations = Returns p'"
    by (auto simp: outcome_bind_Returns)
  with Cons.IH [of p1] perform_uniqName [of E p operation p1] show ?case by simp
qed

lemma Connect_dial_uniqName:
  "Connect_dial dial t a m = Returns p \<Longrightarrow> uniqName p = []"
  by (auto simp: Connect_dial_def split: sum.splits)

lemma Connect_uniqName:
  assumes "Connect getenv dial busType = Returns p"
  shows "uniqName p = []"
proof -
  from assms obtain address t m where
    r: "(case m ''path'' of
        Some a \<Rightarrow> Connect_dial dial t a m
      | None \<Rightarrow>
          (case m ''abstract'' of
             Some a \<Rightarrow> Connect_dial dial t (''@'' @ a) m
           | None \<Rightarrow> Fails (Error ''Unknown address key''))) = Returns p"
    by (auto simp: Connect_def outcome_bind_Returns split: if_splits)
  then show ?thesis
    by (auto split: option.splits dest: Connect_dial_uniqName)
qed

text \<open>
  Claim C3, as amended. After \<open>Initialize\<close> completes successfully \<open>uniqName\<close> holds
  what it held before, which is the empty string for a connection that \<open>Connect\<close>
  made: the reply to \<open>Hello\<close> does not reach it. And it is never modified afterwards:
  whatever operations follow (calls, emitted signals, object lookups, handler
  registrations, a second \<open>Initialize\<close>, dispatches of incoming messages, the
  receiver's work on the buffer), \<open>uniqName\<close> stays the same.
\<close>

theorem uniqName_never_assigned:
  assumes "Initialize E p msg0 msgs = Returns (p1, evs, None, rest)"
    and "perform_all E p1 operations = Returns p2"
  shows "uniqName p1 = uniqName p \<and> uniqName p2 = uniqName p
         \<and> (Connect getenv dial busType = Returns p \<longrightarrow> uniqName p1 = [] \<and> uniqName p2 = [])"
  using Initialize_uniqName [OF assms(1)] perform_all_uniqName [OF assms(2)]
    Connect_uniqName [of getenv dial busType p]
  by simp


lemma example_Initialize:
  "Initialize example_collaborators example_connected example_message [Some hello_reply] =
     Returns (example_initialized, [Invoked (SendSync_closure Call_closure) hello_reply], None, [])"
  by (simp add: Initialize_def Auth_def example_collaborators_def SendHello_def
      MethodByName_GetProxy example_connected_def example_initialized_def
      Call_def SendSync_def Let_def Call_message_def example_message_def example_conn_def
      NetConn_Write_def wakes_def MessageDispatch_def hello_reply_def map_lookup_def
      map_delete_def)

lemma example_perform_all:
  "\<exists>p2. perform_all example_collaborators example_initialized example_operations = Returns p2"
  by (simp add: example_operations_def example_initialized_def Handle_def Handle_AddMatch_def
      Handle_register_def MethodByName_GetProxy Call_def SendSync_def Let_def Call_message_def
      example_message_def wakes_def MessageDispatch_def example_signal_def hello_reply_def
      map_lookup_def map_delete_def split: prod.splits)

lemma example_Connect:
  "Connect example_getenv example_dial SystemBus = Returns example_connected"
  by (simp add: Connect_def Connect_address_def SystemBus_def SessionBus_def example_getenv_def
      Connect_parse_def Connect_dial_def example_dial_def example_connected_def example_conn_def)

text \<open>
  A connection to the system bus is initialized, the reply to \<open>Hello\<close> arrives, a
  handler is registered and a signal dispatched: the name is the empty string throughout.
\<close>

theorem uniqName_never_assigned_witness:
  "\<exists>p2. Connect example_getenv example_dial SystemBus = Returns example_connected
     \<and> Initialize example_collaborators example_connected example_message [Some hello_reply] =
         Returns (example_initialized, [Invoked (SendSync_closure Call_closure) hello_reply], None, [])
     \<and> perform_all example_collaborators example_initialized example_operations = Returns p2
     \<and> uniqName example_initialized = [] \<and> uniqName p2 = []"
proof -
  from example_perform_all obtain p2 where
    p: "perform_all example_collaborators example_initialized example_operations = Returns p2"
    by blast
  note c = example_Connect
  from uniqName_never_assigned [OF example_Initialize p, of example_getenv example_dial SystemBus] c
  have "uniqName example_initialized = [] \<and> uniqName p2 = []"
    by blast
  with c example_Initialize p show ?thesis by blast
qed

text \<open>
  Claim C3 as stated fails: the reply to \<open>Hello\<close> carries the name \<open>:1.42\<close>,
  \<open>Initialize\<close> completes with a nil error, and \<open>uniqName\<close> is the empty string.
\<close>

theorem Hello_reply_not_stored:
  "Params hello_reply = [VString '':1.42'']
   \<and> map_option (fst \<circ> snd \<circ> snd)
        (returned (Initialize example_collaborators example_connected example_message
           [Some hello_reply])) = Some None
   \<and> map_option (uniqName \<circ> fst)
        (returned (Initialize example_collaborators example_connected example_message
           [Some hello_reply])) = Some []"
proof -
  have p: "Params hello_reply = [VString '':1.42'']"
    by (simp add: hello_reply_def)
  have u: "uniqName example_initialized = []"
    by (simp add: example_initialized_def example_connected_def)
  show ?thesis
    unfolding example_Initialize using p u by simp
qed


end
